theory Spec2Isabelle
  imports Main "HOL-Library.Word"
begin

unbundle bit_operations_syntax

section \<open>The HPM client library (HPMFraud.c)\<close>

subsection \<open>Return codes and enumerations\<close>

text \<open>
  \<open>IOReturn\<close> is a 32-bit code. The library names five of IOKit's values; they are
  written here with the numbers IOKit's \<open>IOReturn.h\<close> gives them.
\<close>

type_synonym IOReturn = "32 word"
type_synonym byte = "8 word"

definition kIOReturnSuccess :: IOReturn where
  "kIOReturnSuccess = 0"

definition kIOReturnError :: IOReturn where
  "kIOReturnError = 0xe00002bc"

definition kIOReturnBadArgument :: IOReturn where
  "kIOReturnBadArgument = 0xe00002c2"

definition kIOReturnUnderrun :: IOReturn where
  "kIOReturnUnderrun = 0xe00002e7"

definition kIOReturnNotFound :: IOReturn where
  "kIOReturnNotFound = 0xe00002f0"

text \<open>
  \<open>HPMConnectionType\<close> is a C enum whose values are returned unchecked from a masked
  byte, so it is an integer here and its enumerators are constants.
\<close>

type_synonym HPMConnectionType = int

definition kHPMConnectionTypeError :: HPMConnectionType where
  "kHPMConnectionTypeError = - 1"

definition kHPMConnectionTypeNone :: HPMConnectionType where
  "kHPMConnectionTypeNone = 0"

definition kHPMConnectionTypeSource :: HPMConnectionType where
  "kHPMConnectionTypeSource = 1"

definition kHPMConnectionTypeSink :: HPMConnectionType where
  "kHPMConnectionTypeSink = 3"

definition kHPMConnectionTypeMask :: byte where
  "kHPMConnectionTypeMask = 3"

datatype HPMMode = kHPMModeError | kHPMModeApp | kHPMModeDBMA | kHPMModeUnknown

text \<open>The command codes are the four-character constants of the enum \<open>HPMCommand\<close>.\<close>

datatype HPMCommand = kHPMCommandDBMA | kHPMCommandGAID | kHPMCommandLock

definition bytes_of :: "string \<Rightarrow> byte list" where
  "bytes_of s = map (\<lambda>c. of_nat (of_char c)) s"

fun fourcc :: "byte list \<Rightarrow> 32 word" where
  "fourcc [] = 0"
| "fourcc (b # bs) = push_bit (8 * length bs) (ucast b) OR fourcc bs"

fun command_code :: "HPMCommand \<Rightarrow> 32 word" where
  "command_code kHPMCommandDBMA = fourcc (bytes_of ''DBMa'')"
| "command_code kHPMCommandGAID = fourcc (bytes_of ''Gaid'')"
| "command_code kHPMCommandLock = fourcc (bytes_of ''LOCK'')"

definition kHPMCommandArg0 :: "byte list" where
  "kHPMCommandArg0 = [0x00, 0x00]"

definition kHPMCommandArg1 :: "byte list" where
  "kHPMCommandArg1 = [0x01, 0x00]"

datatype HPMKnownVDM =
  kHPMKnownVDMList | kHPMKnownVDMReboot | kHPMKnownVDMDFU | kHPMKnownVDMDebugUSB

subsection \<open>The transport and its trace\<close>

text \<open>
  The library reaches the chip only through the four entries of \<open>struct HPMInterface\<close>
  and releases it with \<open>IODestroyPlugInInterface\<close> (given the plug-in pointer, \<open>None\<close>
  when it is null). A call carries the arguments the C code passes: a buffer argument
  is the array the pointer refers to together with the length that is passed beside it. The transport is any deterministic function of the
  calls made so far; it answers with a return code and, for \<open>Read\<close>, the bytes it stored
  (their number is the \<open>readLength\<close> it reports). The trace records every call with its
  answer, oldest first.
\<close>

datatype call =
    Read "64 word" byte nat "32 word"
  | Write "64 word" byte "byte list" nat "32 word"
  | Command "64 word" "32 word" "32 word"
  | SendVDM "64 word" int "32 word list" nat "32 word"
  | IODestroyPlugInInterface "nat option"

type_synonym answer = "IOReturn \<times> byte list"
type_synonym event = "call \<times> answer"
type_synonym trace = "event list"
type_synonym transport = "trace \<Rightarrow> call \<Rightarrow> answer"

definition perform :: "transport \<Rightarrow> call \<Rightarrow> trace \<Rightarrow> answer \<times> trace" where
  "perform dev c tr = (let a = dev tr c in (a, tr @ [(c, a)]))"

subsection \<open>Reading and the two status queries\<close>

text \<open>\<open>sizeof(HPMReply)\<close> is 64.\<close>

definition HPMReply_size :: nat where
  "HPMReply_size = 64"

text \<open>
  \<open>HPMRead\<close> returns the code with the reply and its length; when the read fails the
  caller's length keeps the 0 it was initialised with, which is the empty reply here.
\<close>

definition HPMRead ::
  "transport \<Rightarrow> 64 word \<Rightarrow> byte \<Rightarrow> 32 word \<Rightarrow> trace \<Rightarrow> (IOReturn \<times> byte list) \<times> trace" where
  "HPMRead dev chip address flags tr =
     (let ((ret, reply), tr') = perform dev (Read chip address HPMReply_size flags) tr
      in if ret \<noteq> kIOReturnSuccess then ((ret, []), tr')
         else ((kIOReturnSuccess, reply), tr'))"

definition HPMGetConnectionType :: "transport \<Rightarrow> trace \<Rightarrow> HPMConnectionType \<times> trace" where
  "HPMGetConnectionType dev tr =
     (let ((ret, reply), tr') = HPMRead dev 0 0x3f 0 tr
      in if ret \<noteq> kIOReturnSuccess \<or> length reply = 0 then (kHPMConnectionTypeError, tr')
         else (uint (reply ! 0 AND kHPMConnectionTypeMask), tr'))"

definition HPMGetMode :: "transport \<Rightarrow> trace \<Rightarrow> (IOReturn + HPMMode) \<times> trace" where
  "HPMGetMode dev tr =
     (let ((ret, reply), tr') = HPMRead dev 0 0x3 0 tr
      in if ret \<noteq> kIOReturnSuccess then (Inl ret, tr')
         else if length reply < 4 then (Inl kIOReturnUnderrun, tr')
         else if take 3 reply = bytes_of ''APP'' then (Inr kHPMModeApp, tr')
         else if take 4 reply = bytes_of ''DBMa'' then (Inr kHPMModeDBMA, tr')
         else (Inr kHPMModeUnknown, tr'))"

subsection \<open>Commands\<close>

text \<open>
  \<open>HPMDoCommand\<close>: \<open>args\<close> is \<open>None\<close> for a null pointer; \<open>out\<close> says whether the caller
  passed a place for the result code. The second component of the result is the byte
  stored there, \<open>None\<close> when nothing was stored.
\<close>

definition HPMDoCommand ::
  "transport \<Rightarrow> 64 word \<Rightarrow> HPMCommand \<Rightarrow> byte list option \<Rightarrow> nat \<Rightarrow> bool \<Rightarrow> trace
     \<Rightarrow> (IOReturn \<times> byte option) \<times> trace" where
  "HPMDoCommand dev chip command args argsLength out tr =
     (let (wret, tr1) =
            (if args \<noteq> None \<and> argsLength \<noteq> 0
             then (let ((ret, _), tr') = perform dev (Write chip 9 (the args) argsLength 0) tr
                   in (ret, tr'))
             else (kIOReturnSuccess, tr))
      in if wret \<noteq> kIOReturnSuccess then ((wret, None), tr1)
         else
           (let ((ret, _), tr2) = perform dev (Command chip (command_code command) 0) tr1
            in if ret \<noteq> kIOReturnSuccess then ((ret, None), tr2)
               else
                 (let ((ret, reply), tr3) = HPMRead dev chip 9 0 tr2
                  in if ret \<noteq> kIOReturnSuccess \<or> length reply = 0 then ((ret, None), tr3)
                     else ((kIOReturnSuccess, if out then Some (reply ! 0 AND 0xf) else None),
                           tr3))))"

text \<open>
  \<open>HPMGetACEUnlockKey\<close>: the argument is the registry name of the platform expert device,
  the 128 bytes of an \<open>io_name_t\<close> whose characters are signed (\<open>None\<close> when the service
  or its name cannot be had, which gives the null pointer).
  The key is the 32-bit value packed from the first four characters, returned as the
  bytes of that value in memory (least significant first). The static cache holds the
  same value on every later call.
\<close>

definition word_bytes :: "32 word \<Rightarrow> byte list" where
  "word_bytes w = [ucast w, ucast (drop_bit 8 w), ucast (drop_bit 16 w), ucast (drop_bit 24 w)]"

definition HPMGetACEUnlockKey :: "byte list option \<Rightarrow> byte list option" where
  "HPMGetACEUnlockKey name =
     (case name of
        None \<Rightarrow> None
      | Some n \<Rightarrow>
          Some (word_bytes (push_bit 24 (scast (n ! 0)) OR push_bit 16 (scast (n ! 1))
                            OR push_bit 8 (scast (n ! 2)) OR scast (n ! 3))))"

definition HPMUnlockACE :: "transport \<Rightarrow> byte list option \<Rightarrow> trace \<Rightarrow> IOReturn \<times> trace" where
  "HPMUnlockACE dev name tr =
     (let ((ret, _), tr1) = HPMDoCommand dev 0 kHPMCommandLock (HPMGetACEUnlockKey name) 4 False tr
      in if ret = kIOReturnSuccess then (ret, tr1)
         else
           (let ((ret2, _), tr2) = HPMDoCommand dev 0 kHPMCommandGAID None 0 False tr1
            in if ret2 \<noteq> kIOReturnSuccess then (ret2, tr2)
               else (let ((ret3, _), tr3) =
                           HPMDoCommand dev 0 kHPMCommandLock (HPMGetACEUnlockKey name) 4 False tr2
                     in (ret3, tr3))))"

subsection \<open>Sending VDMs\<close>

definition HPMSendVDM ::
  "transport \<Rightarrow> 64 word \<Rightarrow> 32 word list \<Rightarrow> nat \<Rightarrow> trace \<Rightarrow> IOReturn \<times> trace" where
  "HPMSendVDM dev chip body bodyLength tr =
     (let ((ret, _), tr') = perform dev (SendVDM chip 3 body bodyLength 0) tr in (ret, tr'))"

definition kVDMCommandList :: "32 word" where
  "kVDMCommandList = 0x5ac8010"

definition kVDMCommandInfo :: "32 word" where
  "kVDMCommandInfo = 0x5ac8011"

definition kVDMCommandAction :: "32 word" where
  "kVDMCommandAction = 0x5ac8012"

definition kVDMActionReboot :: "32 word" where
  "kVDMActionReboot = 0x105"

definition kVDMActionDFU :: "32 word" where
  "kVDMActionDFU = 0x106"

definition kVDMActionDebugUSB :: "32 word" where
  "kVDMActionDebugUSB = 0x4606"

definition kVDMFlagsLine1 :: "32 word" where
  "kVDMFlagsLine1 = push_bit 17 1"

definition kVDMFlagsGraceful :: "32 word" where
  "kVDMFlagsGraceful = push_bit 23 1"

definition kVDMFlagsPersist :: "32 word" where
  "kVDMFlagsPersist = push_bit 24 1"

definition kVDMFlagsExit :: "32 word" where
  "kVDMFlagsExit = push_bit 25 1"

text \<open>\<open>sizeof\<close> of an array of 32-bit words.\<close>

definition sizeof_words :: "32 word list \<Rightarrow> nat" where
  "sizeof_words ws = 4 * length ws"

definition s_body_list :: "32 word list" where
  "s_body_list = [kVDMCommandList]"

definition s_body_reboot :: "32 word list" where
  "s_body_reboot = [kVDMCommandAction, kVDMActionReboot, 0x80000000]"

definition s_body_debug_dfu :: "32 word list" where
  "s_body_debug_dfu = [kVDMCommandAction, kVDMActionDFU, 0x80010000]"

definition s_body_debug :: "32 word list" where
  "s_body_debug =
     [kVDMCommandAction, kVDMFlagsGraceful OR kVDMFlagsLine1 OR kVDMActionDebugUSB]"

text \<open>
  The \<open>default\<close> branch of the switch (\<open>kIOReturnError\<close>) is for integers outside the
  enum; the datatype has none.
\<close>

fun HPMSendKnownVDM ::
  "transport \<Rightarrow> 64 word \<Rightarrow> HPMKnownVDM \<Rightarrow> trace \<Rightarrow> IOReturn \<times> trace" where
  "HPMSendKnownVDM dev chip kHPMKnownVDMList tr =
     HPMSendVDM dev chip s_body_list (sizeof_words s_body_list) tr"
| "HPMSendKnownVDM dev chip kHPMKnownVDMReboot tr =
     HPMSendVDM dev chip s_body_reboot (sizeof_words s_body_reboot) tr"
| "HPMSendKnownVDM dev chip kHPMKnownVDMDFU tr =
     HPMSendVDM dev chip s_body_debug_dfu (sizeof_words s_body_debug_dfu) tr"
| "HPMSendKnownVDM dev chip kHPMKnownVDMDebugUSB tr =
     HPMSendVDM dev chip s_body_debug (sizeof_words s_body_debug) tr"

text \<open>
  The bytes the transport is given to send: the first \<open>bodyLength\<close> bytes of the array,
  each word stored least significant byte first as on the machines the tool runs on.
\<close>

definition frame_bytes :: "32 word list \<Rightarrow> nat \<Rightarrow> byte list" where
  "frame_bytes body bodyLength = take bodyLength (concat (map word_bytes body))"

subsection \<open>Opening and closing a client\<close>

text \<open>
  What the library asks of IOKit when it opens a client is a parameter of the model:
  the answer of \<open>IOServiceGetMatchingServices\<close> for the class \<open>AppleHPM\<close> (its code and
  the services the iterator yields, in order), each service's \<open>RID\<close> property read as a
  signed 32-bit number (\<open>None\<close> when the property cannot be had), plug-in creation,
  \<open>QueryInterface\<close>, the transport behind an interface, the platform expert's name and
  the effective user id.
\<close>

record registry_entry =
  service :: nat
  RID :: "32 word option"

record iokit =
  matching_services :: "IOReturn \<times> registry_entry list"
  create_plugin :: "nat \<Rightarrow> IOReturn \<times> nat"
  query_interface :: "nat \<Rightarrow> 32 word \<times> nat"
  interface_impl :: "nat \<Rightarrow> transport"
  platform_name :: "byte list option"
  euid :: nat

record HPMClient =
  plugin :: "nat option"
  interface :: "nat option"

definition S_OK :: "32 word" where
  "S_OK = 0"

text \<open>The \<open>while\<close> loop of \<open>HPMFindService\<close> over the services of the iterator.\<close>

fun HPMFindService_loop :: "32 word \<Rightarrow> registry_entry list \<Rightarrow> IOReturn + nat" where
  "HPMFindService_loop targetRID [] = Inl kIOReturnNotFound"
| "HPMFindService_loop targetRID (device # devices) =
     (case RID device of
        None \<Rightarrow> Inl kIOReturnError
      | Some rid \<Rightarrow>
          if rid \<noteq> targetRID then HPMFindService_loop targetRID devices
          else Inr (service device))"

text \<open>
  \<open>service_out\<close> says whether the out-pointer is non-null; \<open>Inr\<close> is \<open>kIOReturnSuccess\<close>
  with the service stored through it.
\<close>

definition HPMFindService :: "iokit \<Rightarrow> 32 word \<Rightarrow> bool \<Rightarrow> IOReturn + nat" where
  "HPMFindService os targetRID service_out =
     (if \<not> service_out then Inl kIOReturnBadArgument
      else (let (ret, devices) = matching_services os
            in if ret \<noteq> kIOReturnSuccess then Inl ret
               else HPMFindService_loop targetRID devices))"

definition HPMClientOpen :: "iokit \<Rightarrow> HPMClient \<Rightarrow> 32 word \<Rightarrow> IOReturn \<times> HPMClient" where
  "HPMClientOpen os hpm rid =
     (case HPMFindService os rid True of
        Inl ret \<Rightarrow> (ret, hpm)
      | Inr svc \<Rightarrow>
          (let (ret, plug) = create_plugin os svc
           in if ret \<noteq> kIOReturnSuccess then (ret, hpm)
              else (let (res, iface) = query_interface os plug
                    in if res \<noteq> S_OK then (kIOReturnError, hpm)
                       else (kIOReturnSuccess,
                             hpm\<lparr>plugin := Some plug, interface := Some iface\<rparr>))))"

definition HPMClientClose :: "transport \<Rightarrow> HPMClient \<Rightarrow> trace \<Rightarrow> HPMClient \<times> trace" where
  "HPMClientClose dev hpm tr =
     (let (_, tr') = perform dev (IODestroyPlugInInterface (plugin hpm)) tr
      in (hpm\<lparr>plugin := None, interface := None\<rparr>, tr'))"

section \<open>The command-line tool (vdmpoke.c)\<close>

subsection \<open>Arguments\<close>

datatype cmd_t = CMD_HELP | CMD_REBOOT | CMD_DFU | CMD_DEBUG | CMD_CUSTOM

text \<open>
  \<open>rest\<close> is an array of eight pointers that \<open>args_parse\<close> fills in part: a slot is
  \<open>None\<close> while nothing has been stored in it.
\<close>

record args_t =
  prog :: string
  cmd :: cmd_t
  rid :: "32 word"
  num_rest :: int
  rest :: "string option list"

text \<open>
  \<open>args_parse\<close> after its \<open>getopt\<close> loop: \<open>rid0\<close> is the value the loop left in
  \<open>args->rid\<close> and \<open>optind\<close> is the index of the first operand. A store to
  \<open>rest[i - 2]\<close> with \<open>i < 2\<close> is outside the array; the result is then \<open>None\<close>.
\<close>

fun args_parse_rest :: "string list \<Rightarrow> nat \<Rightarrow> args_t \<Rightarrow> args_t option" where
  "args_parse_rest [] i args = Some args"
| "args_parse_rest (a # argv) i args =
     (if i \<ge> 8 then Some args
      else if i < 2 then None
      else args_parse_rest argv (i + 1)
             (args\<lparr>rest := (rest args)[i - 2 := Some a], num_rest := num_rest args + 1\<rparr>))"

definition args_parse :: "string list \<Rightarrow> nat \<Rightarrow> 32 word \<Rightarrow> args_t option" where
  "args_parse argv optind rid0 =
     (let args = \<lparr>prog = argv ! 0, cmd = CMD_HELP, rid = rid0, num_rest = 0,
                  rest = replicate 8 None\<rparr>
      in if optind = length argv then Some args
         else
           (let c = argv ! optind;
                args = (if c = ''reboot'' then args\<lparr>cmd := CMD_REBOOT\<rparr>
                        else if c = ''dfu'' then args\<lparr>cmd := CMD_DFU\<rparr>
                        else if c = ''debug'' then args\<lparr>cmd := CMD_DEBUG\<rparr>
                        else if c = ''custom'' then args\<lparr>cmd := CMD_CUSTOM\<rparr>
                        else args)
            in args_parse_rest (drop optind argv) optind args))"

subsection \<open>The C library's strtol at base 16\<close>

text \<open>
  As the C standard has it: white space is skipped, a sign and a \<open>0x\<close> or \<open>0X\<close> prefix
  are optional, the longest run of hexadecimal digits that follows is the value (0 when
  there is none), and a value outside \<open>long\<close> (64 bits here) is clamped to its nearest
  bound. The end pointer is not asked for.
\<close>

definition isspace :: "char \<Rightarrow> bool" where
  "isspace c = (c \<in> set [CHR '' '', CHR 0x09, CHR 0x0A, CHR 0x0B, CHR 0x0C, CHR 0x0D])"

definition hex_digit :: "char \<Rightarrow> nat option" where
  "hex_digit c =
     (let n = (of_char c :: nat)
      in if 48 \<le> n \<and> n \<le> 57 then Some (n - 48)
         else if 97 \<le> n \<and> n \<le> 102 then Some (n - 87)
         else if 65 \<le> n \<and> n \<le> 70 then Some (n - 55)
         else None)"

fun hex_value :: "nat \<Rightarrow> string \<Rightarrow> nat" where
  "hex_value acc [] = acc"
| "hex_value acc (c # cs) =
     (case hex_digit c of None \<Rightarrow> acc | Some d \<Rightarrow> hex_value (16 * acc + d) cs)"

fun strip_sign :: "string \<Rightarrow> bool \<times> string" where
  "strip_sign [] = (False, [])"
| "strip_sign (c # cs) =
     (if c = CHR ''-'' then (True, cs)
      else if c = CHR ''+'' then (False, cs)
      else (False, c # cs))"

fun strip_0x :: "string \<Rightarrow> string" where
  "strip_0x (a # b # cs) =
     (if a = CHR ''0'' \<and> (b = CHR ''x'' \<or> b = CHR ''X'') then cs else a # b # cs)"
| "strip_0x cs = cs"

definition LONG_MAX :: int where
  "LONG_MAX = 2 ^ 63 - 1"

definition LONG_MIN :: int where
  "LONG_MIN = - (2 ^ 63)"

definition strtol16 :: "string \<Rightarrow> int" where
  "strtol16 s =
     (let (neg, s1) = strip_sign (dropWhile isspace s);
          v = int (hex_value 0 (strip_0x s1))
      in if neg then (if - v < LONG_MIN then LONG_MIN else - v)
         else (if v > LONG_MAX then LONG_MAX else v))"

subsection \<open>Entering and leaving DBMa mode\<close>

text \<open>\<open>fatalf\<close> prints one message and calls \<open>exit(1)\<close>; a value of \<open>fatal\<close> is the message.\<close>

datatype fatal =
    Not_root
  | Failed_open "32 word" IOReturn
  | Failed_connection_type
  | No_connection "32 word"
  | Failed_get_mode IOReturn
  | Failed_unlock IOReturn
  | Failed_request_dbma IOReturn
  | Failed_switch_dbma
  | Failed_send IOReturn
  | Failed_request_app IOReturn
  | Failed_switch_app

definition cli_enter_dbma_mode ::
  "transport \<Rightarrow> byte list option \<Rightarrow> trace \<Rightarrow> (fatal + unit) \<times> trace" where
  "cli_enter_dbma_mode dev name tr =
     (case HPMGetMode dev tr of
        (Inl ret, tr1) \<Rightarrow> (Inl (Failed_get_mode ret), tr1)
      | (Inr mode, tr1) \<Rightarrow>
          if mode = kHPMModeDBMA then (Inr (), tr1)
          else
            (let (ret, tr2) = HPMUnlockACE dev name tr1
             in if ret \<noteq> kIOReturnSuccess then (Inl (Failed_unlock ret), tr2)
                else
                  (let ((ret, _), tr3) =
                         HPMDoCommand dev 0 kHPMCommandDBMA (Some kHPMCommandArg1) 1 False tr2
                   in if ret \<noteq> kIOReturnSuccess then (Inl (Failed_request_dbma ret), tr3)
                      else
                        (case HPMGetMode dev tr3 of
                           (Inl ret, tr4) \<Rightarrow> (Inl (Failed_get_mode ret), tr4)
                         | (Inr mode, tr4) \<Rightarrow>
                             if mode \<noteq> kHPMModeDBMA then (Inl Failed_switch_dbma, tr4)
                             else (Inr (), tr4)))))"

definition cli_exit_dbma_mode :: "transport \<Rightarrow> trace \<Rightarrow> (fatal + unit) \<times> trace" where
  "cli_exit_dbma_mode dev tr =
     (let ((ret, _), tr1) =
            HPMDoCommand dev 0 kHPMCommandDBMA (Some kHPMCommandArg0) 1 False tr
      in if ret \<noteq> kIOReturnSuccess then (Inl (Failed_request_app ret), tr1)
         else
           (case HPMGetMode dev tr1 of
              (Inl ret, tr2) \<Rightarrow> (Inl (Failed_get_mode ret), tr2)
            | (Inr mode, tr2) \<Rightarrow>
                if mode = kHPMModeDBMA then (Inl Failed_switch_app, tr2)
                else (Inr (), tr2)))"

subsection \<open>main\<close>

text \<open>
  The loop of the \<open>CMD_CUSTOM\<close> case. Reading a slot of \<open>rest\<close> that was never stored,
  or indexing either array at 8 or beyond, has no defined result: \<open>None\<close>.
\<close>

function main_custom_loop ::
  "args_t \<Rightarrow> nat \<Rightarrow> 32 word list \<Rightarrow> int \<Rightarrow> (32 word list \<times> int) option" where
  "main_custom_loop args i words num_words =
     (if int i < num_rest args then
        (if i < 8 \<and> i < length (rest args) then
           (case rest args ! i of
              None \<Rightarrow> None
            | Some s \<Rightarrow>
                main_custom_loop args (i + 1)
                  (words[i := word_of_int (strtol16 s)]) (num_words + 1))
         else None)
      else Some (words, num_words))"
  by pat_completeness auto
termination
  by (relation "measure (\<lambda>(args, i, words, num_words). 8 - i)") auto

declare main_custom_loop.simps [simp del]

text \<open>The \<open>switch\<close> on the command; \<open>CMD_HELP\<close> has returned before it is reached.\<close>

fun main_switch ::
  "transport \<Rightarrow> args_t \<Rightarrow> cmd_t \<Rightarrow> trace \<Rightarrow> (IOReturn \<times> trace) option" where
  "main_switch dev args CMD_REBOOT tr = Some (HPMSendKnownVDM dev 0 kHPMKnownVDMReboot tr)"
| "main_switch dev args CMD_DFU tr = Some (HPMSendKnownVDM dev 0 kHPMKnownVDMDFU tr)"
| "main_switch dev args CMD_DEBUG tr = Some (HPMSendKnownVDM dev 0 kHPMKnownVDMDebugUSB tr)"
| "main_switch dev args CMD_CUSTOM tr =
     (case main_custom_loop args 0 (replicate 8 0) 0 of
        None \<Rightarrow> None
      | Some (words, num_words) \<Rightarrow> Some (HPMSendVDM dev 0 words (nat num_words) tr))"
| "main_switch dev args CMD_HELP tr = None"

text \<open>
  How the process ends: \<open>main\<close> returns a status, or \<open>fatalf\<close> exits with status 1.
\<close>

datatype outcome = Returned int | Exited fatal

fun exit_code :: "outcome \<Rightarrow> int" where
  "exit_code (Returned n) = n"
| "exit_code (Exited f) = 1"

text \<open>
  \<open>main\<close> from the parsed arguments on. The result is \<open>None\<close> where the C code has no
  defined behaviour (see \<open>main_custom_loop\<close>).
\<close>

definition main :: "iokit \<Rightarrow> args_t \<Rightarrow> trace \<Rightarrow> (outcome \<times> trace) option" where
  "main os args tr =
     (if cmd args = CMD_HELP then Some (Returned 1, tr)
      else if euid os \<noteq> 0 then Some (Exited Not_root, tr)
      else
        (case HPMClientOpen os \<lparr>plugin = None, interface = None\<rparr> (rid args) of
           (ret, hpm) \<Rightarrow>
             if ret \<noteq> kIOReturnSuccess then Some (Exited (Failed_open (rid args) ret), tr)
             else
               (case interface hpm of
                  None \<Rightarrow> None
                | Some iface \<Rightarrow>
                    (let dev = interface_impl os iface;
                         (connType, tr1) = HPMGetConnectionType dev tr
                     in if connType = kHPMConnectionTypeError
                        then Some (Exited Failed_connection_type, tr1)
                        else if connType = kHPMConnectionTypeNone
                        then Some (Exited (No_connection (rid args)), tr1)
                        else
                          (case cli_enter_dbma_mode dev (platform_name os) tr1 of
                             (Inl f, tr2) \<Rightarrow> Some (Exited f, tr2)
                           | (Inr _, tr2) \<Rightarrow>
                               (case main_switch dev args (cmd args) tr2 of
                                  None \<Rightarrow> None
                                | Some (ret, tr3) \<Rightarrow>
                                    if ret \<noteq> kIOReturnSuccess
                                    then Some (Exited (Failed_send ret), tr3)
                                    else
                                      (case cli_exit_dbma_mode dev tr3 of
                                         (Inl f, tr4) \<Rightarrow> Some (Exited f, tr4)
                                       | (Inr _, tr4) \<Rightarrow>
                                           (let (_, tr5) = HPMClientClose dev hpm tr4
                                            in Some (Returned 0, tr5)))))))))"

section \<open>Traces and runs\<close>

subsection \<open>Reading a trace\<close>

text \<open>The command codes issued through the \<open>Command\<close> entry, in order.\<close>

fun issued :: "trace \<Rightarrow> 32 word list" where
  "issued [] = []"
| "issued ((Command chip code flags, a) # es) = code # issued es"
| "issued (e # es) = issued es"

fun is_send :: "event \<Rightarrow> bool" where
  "is_send (SendVDM chip arg body bodyLength flags, a) = True"
| "is_send e = False"

fun is_close :: "event \<Rightarrow> bool" where
  "is_close (IODestroyPlugInInterface plug, a) = True"
| "is_close e = False"

text \<open>A stretch of trace in which nothing is sent and nothing is released.\<close>

definition quiet :: "trace \<Rightarrow> bool" where
  "quiet es = list_all (\<lambda>e. \<not> is_send e \<and> \<not> is_close e) es"

text \<open>A mode query (a read of address 3 on chip 0) answered with the tag \<open>DBMa\<close>.\<close>

fun confirms_dbma :: "event \<Rightarrow> bool" where
  "confirms_dbma (Read chip address n flags, (ret, reply)) =
     (chip = 0 \<and> address = 3 \<and> ret = kIOReturnSuccess \<and> 4 \<le> length reply \<and>
      take 4 reply = bytes_of ''DBMa'')"
| "confirms_dbma e = False"

text \<open>
  The first call of \<open>cli_exit_dbma_mode\<close>: the argument byte 0 written to address 9 for
  the \<open>DBMa\<close> command.
\<close>

fun starts_restore :: "event \<Rightarrow> bool" where
  "starts_restore (Write chip address buffer n flags, a) =
     (chip = 0 \<and> address = 9 \<and> take n buffer = [0x00])"
| "starts_restore e = False"

text \<open>
  Every send comes directly after a mode query answered \<open>DBMa\<close>; the flag says whether
  the call before the list was one.
\<close>

fun sends_confirmed :: "bool \<Rightarrow> trace \<Rightarrow> bool" where
  "sends_confirmed ok [] = True"
| "sends_confirmed ok (e # es) =
     ((if is_send e then ok else True) \<and> sends_confirmed (confirms_dbma e) es)"

text \<open>
  After a send that succeeded the next call starts the restore; a send that failed is
  the last call.
\<close>

fun after_send :: "trace \<Rightarrow> bool" where
  "after_send [] = True"
| "after_send (e # es) =
     ((if is_send e
       then (if fst (snd e) = kIOReturnSuccess
             then (case es of [] \<Rightarrow> False | e' # _ \<Rightarrow> starts_restore e')
             else es = [])
       else True) \<and> after_send es)"

text \<open>The handle is released only after a restore was started.\<close>

fun close_after_restore :: "bool \<Rightarrow> trace \<Rightarrow> bool" where
  "close_after_restore seen [] = True"
| "close_after_restore seen (e # es) =
     ((if is_close e then seen else True) \<and> close_after_restore (seen \<or> starts_restore e) es)"

definition failed_send :: "event \<Rightarrow> bool" where
  "failed_send e = (is_send e \<and> fst (snd e) \<noteq> kIOReturnSuccess)"

text \<open>The characters \<open>strtol16\<close> takes for digits.\<close>

definition is_hex :: "char \<Rightarrow> bool" where
  "is_hex c = (hex_digit c \<noteq> None)"

subsection \<open>Transports, services and arguments for running the model\<close>

text \<open>A transport that gives its answers from a list, one per call, and fails after.\<close>

definition scripted :: "answer list \<Rightarrow> transport" where
  "scripted answers tr c =
     (if length tr < length answers then answers ! length tr else (kIOReturnError, []))"

text \<open>One port with RID 0 that opens, as seen by the super-user.\<close>

definition one_port :: "answer list \<Rightarrow> iokit" where
  "one_port answers =
     \<lparr>matching_services = (kIOReturnSuccess, [\<lparr>service = 1, RID = Some 0\<rparr>]),
      create_plugin = (\<lambda>svc. (kIOReturnSuccess, 2)),
      query_interface = (\<lambda>plug. (S_OK, 3)),
      interface_impl = (\<lambda>iface. scripted answers),
      platform_name = Some (bytes_of ''J314''),
      euid = 0\<rparr>"

text \<open>A port whose service has no \<open>RID\<close> property, and a machine with ports 0 and 1.\<close>

definition port_without_rid :: iokit where
  "port_without_rid =
     (one_port [])\<lparr>matching_services := (kIOReturnSuccess, [\<lparr>service = 1, RID = None\<rparr>])\<rparr>"

definition two_ports :: iokit where
  "two_ports =
     (one_port [])\<lparr>matching_services :=
        (kIOReturnSuccess, [\<lparr>service = 1, RID = Some 0\<rparr>, \<lparr>service = 2, RID = Some 1\<rparr>])\<rparr>"

text \<open>
  The arguments \<open>args_parse\<close> leaves for \<open>vdmpoke -r0 reboot\<close> and for
  \<open>vdmpoke -r0 custom 5ac8012 105 80000000\<close>.
\<close>

definition reboot_args :: args_t where
  "reboot_args =
     \<lparr>prog = ''vdmpoke'', cmd = CMD_REBOOT, rid = 0, num_rest = 1,
      rest = [Some ''reboot'', None, None, None, None, None, None, None]\<rparr>"

definition custom_args :: args_t where
  "custom_args =
     \<lparr>prog = ''vdmpoke'', cmd = CMD_CUSTOM, rid = 0, num_rest = 4,
      rest = [Some ''custom'', Some ''5ac8012'', Some ''105'', Some ''80000000'',
              None, None, None, None]\<rparr>"

text \<open>
  The answers of a chip in Application mode through a whole \<open>reboot\<close> session, and the
  trace of that session; the trace of a session whose send fails on a chip already in
  DBMa mode.
\<close>

definition session_script :: "answer list" where
  "session_script =
     [(0, [0x01]),
      (0, bytes_of ''APP ''),
      (0, []), (0, []), (0, [0x00]),
      (0, []), (0, []), (0, [0x00]),
      (0, bytes_of ''DBMa''),
      (0, []),
      (0, []), (0, []), (0, [0x00]),
      (0, bytes_of ''APP ''),
      (0, [])]"

definition session_trace :: trace where
  "session_trace =
     [(Read 0 0x3f HPMReply_size 0, (0, [0x01])),
      (Read 0 3 HPMReply_size 0, (0, bytes_of ''APP '')),
      (Write 0 9 [0x34, 0x31, 0x33, 0x4a] 4 0, (0, [])),
      (Command 0 (command_code kHPMCommandLock) 0, (0, [])),
      (Read 0 9 HPMReply_size 0, (0, [0x00])),
      (Write 0 9 kHPMCommandArg1 1 0, (0, [])),
      (Command 0 (command_code kHPMCommandDBMA) 0, (0, [])),
      (Read 0 9 HPMReply_size 0, (0, [0x00])),
      (Read 0 3 HPMReply_size 0, (0, bytes_of ''DBMa'')),
      (SendVDM 0 3 [0x5ac8012, 0x105, 0x80000000] 12 0, (0, [])),
      (Write 0 9 kHPMCommandArg0 1 0, (0, [])),
      (Command 0 (command_code kHPMCommandDBMA) 0, (0, [])),
      (Read 0 9 HPMReply_size 0, (0, [0x00])),
      (Read 0 3 HPMReply_size 0, (0, bytes_of ''APP '')),
      (IODestroyPlugInInterface (Some 2), (0, []))]"

definition failed_send_trace :: trace where
  "failed_send_trace =
     [(Read 0 0x3f HPMReply_size 0, (0, [0x01])),
      (Read 0 3 HPMReply_size 0, (0, bytes_of ''DBMa'')),
      (SendVDM 0 3 [0x5ac8012, 0x105, 0x80000000] 12 0, (1, []))]"

section \<open>Properties of the library\<close>

subsection \<open>Single calls\<close>

lemma perform_eq: "perform dev c tr = (dev tr c, tr @ [(c, dev tr c)])"
  by (simp add: perform_def Let_def)

lemma HPMRead_eq:
  "HPMRead dev chip address flags tr =
     ((fst (dev tr (Read chip address HPMReply_size flags)),
       if fst (dev tr (Read chip address HPMReply_size flags)) = kIOReturnSuccess
       then snd (dev tr (Read chip address HPMReply_size flags)) else []),
      tr @ [(Read chip address HPMReply_size flags,
             dev tr (Read chip address HPMReply_size flags))])"
  by (simp add: HPMRead_def perform_eq split: prod.splits)

lemma HPMSendVDM_eq:
  "HPMSendVDM dev chip body bodyLength tr =
     (fst (dev tr (SendVDM chip 3 body bodyLength 0)),
      tr @ [(SendVDM chip 3 body bodyLength 0, dev tr (SendVDM chip 3 body bodyLength 0))])"
  by (simp add: HPMSendVDM_def perform_eq case_prod_beta)

lemma issued_append: "issued (xs @ ys) = issued xs @ issued ys"
  by (induction xs rule: issued.induct) simp_all

lemma quiet_append: "quiet (xs @ ys) = (quiet xs \<and> quiet ys)"
  by (simp add: quiet_def)

subsection \<open>The mode query\<close>

lemma DBMa_not_APP:
  "take 4 reply = bytes_of ''DBMa'' \<Longrightarrow> take 3 reply \<noteq> bytes_of ''APP''"
proof
  assume d: "take 4 reply = bytes_of ''DBMa''" and a: "take 3 reply = bytes_of ''APP''"
  have "take 3 reply = take 3 (take 4 reply)" by simp
  with d a show False by (simp add: bytes_of_def)
qed

text \<open>
  Claim C4. For every reply the transport gives to the mode query: a reply shorter than
  4 bytes makes \<open>HPMGetMode\<close> return the error \<open>kIOReturnUnderrun\<close> (which is not
  success, and no mode at all); for a reply of at least 4 bytes the mode is Application
  exactly when the first 3 bytes are \<open>APP\<close>, DBMa exactly when the first 4 bytes are
  \<open>DBMa\<close>, and Unknown in every other case.
\<close>

theorem HPMGetMode_decodes_reply:
  "dev tr (Read 0 3 HPMReply_size 0) = (kIOReturnSuccess, reply) \<Longrightarrow>
   (length reply < 4 \<longrightarrow>
      fst (HPMGetMode dev tr) = Inl kIOReturnUnderrun \<and> kIOReturnUnderrun \<noteq> kIOReturnSuccess) \<and>
   (4 \<le> length reply \<longrightarrow>
      (fst (HPMGetMode dev tr) = Inr kHPMModeApp \<longleftrightarrow> take 3 reply = bytes_of ''APP'') \<and>
      (fst (HPMGetMode dev tr) = Inr kHPMModeDBMA \<longleftrightarrow> take 4 reply = bytes_of ''DBMa'') \<and>
      (take 3 reply \<noteq> bytes_of ''APP'' \<and> take 4 reply \<noteq> bytes_of ''DBMa'' \<longrightarrow>
         fst (HPMGetMode dev tr) = Inr kHPMModeUnknown))"
  by (auto simp add: HPMGetMode_def HPMRead_eq kIOReturnUnderrun_def kIOReturnSuccess_def
      dest: DBMa_not_APP)

theorem HPMGetMode_decodes_reply_witness:
  "scripted [(0, bytes_of ''DBMa'')] [] (Read 0 3 HPMReply_size 0)
     = (kIOReturnSuccess, bytes_of ''DBMa'') \<and>
   fst (HPMGetMode (scripted [(0, bytes_of ''DBMa'')]) []) = Inr kHPMModeDBMA \<and>
   scripted [(0, bytes_of ''APP'')] [] (Read 0 3 HPMReply_size 0)
     = (kIOReturnSuccess, bytes_of ''APP'') \<and>
   fst (HPMGetMode (scripted [(0, bytes_of ''APP'')]) []) = Inl kIOReturnUnderrun"
proof -
  have h1: "scripted [(0, bytes_of ''DBMa'')] [] (Read 0 3 HPMReply_size 0)
              = (kIOReturnSuccess, bytes_of ''DBMa'')"
    by (simp add: scripted_def kIOReturnSuccess_def)
  have h2: "scripted [(0, bytes_of ''APP'')] [] (Read 0 3 HPMReply_size 0)
              = (kIOReturnSuccess, bytes_of ''APP'')"
    by (simp add: scripted_def kIOReturnSuccess_def)
  show ?thesis
    using h1 h2
      HPMGetMode_decodes_reply [of "scripted [(0, bytes_of ''DBMa'')]" "[]" "bytes_of ''DBMa''"]
      HPMGetMode_decodes_reply [of "scripted [(0, bytes_of ''APP'')]" "[]" "bytes_of ''APP''"]
    by (simp add: bytes_of_def)
qed

subsection \<open>The connection query\<close>

lemma and3_cases: "(b :: byte) AND 3 = 0 \<or> b AND 3 = 1 \<or> b AND 3 = 2 \<or> b AND 3 = 3"
proof -
  have "b AND 3 \<le> 3" by (rule word_and_le1)
  then have "unat (b AND 3) \<le> 3" by (simp add: word_le_nat_alt)
  then have "unat (b AND 3) = 0 \<or> unat (b AND 3) = 1 \<or> unat (b AND 3) = 2 \<or> unat (b AND 3) = 3"
    by arith
  then show ?thesis
    unfolding word_unat_eq_iff by simp
qed

text \<open>
  Claim C7. \<open>HPMGetConnectionType\<close> returns \<open>kHPMConnectionTypeError\<close> exactly when the
  status read fails or its reply has length zero. For every other reply it returns the
  first reply byte masked with 3, as it is: one of 0 (None), 1 (Source), 2 (no
  enumerator) and 3 (Sink).
\<close>

theorem HPMGetConnectionType_low_bits:
  "dev tr (Read 0 0x3f HPMReply_size 0) = (ret, reply) \<Longrightarrow>
   (fst (HPMGetConnectionType dev tr) = kHPMConnectionTypeError
      \<longleftrightarrow> ret \<noteq> kIOReturnSuccess \<or> length reply = 0) \<and>
   (ret = kIOReturnSuccess \<and> length reply \<noteq> 0 \<longrightarrow>
      fst (HPMGetConnectionType dev tr) = uint (hd reply AND 3) \<and>
      fst (HPMGetConnectionType dev tr) \<in> {0, 1, 2, 3})"
  using and3_cases [of "hd reply"]
  by (auto simp add: HPMGetConnectionType_def HPMRead_eq kHPMConnectionTypeError_def
      kHPMConnectionTypeMask_def hd_conv_nth)

theorem HPMGetConnectionType_low_bits_witness:
  "scripted [(0, [0x06])] [] (Read 0 0x3f HPMReply_size 0) = (kIOReturnSuccess, [0x06]) \<and>
   fst (HPMGetConnectionType (scripted [(0, [0x06])]) []) = 2"
proof -
  have h: "scripted [(0, [0x06])] [] (Read 0 0x3f HPMReply_size 0) = (kIOReturnSuccess, [0x06])"
    by (simp add: scripted_def kIOReturnSuccess_def)
  show ?thesis
    using h HPMGetConnectionType_low_bits [of "scripted [(0, [0x06])]" "[]" kIOReturnSuccess "[0x06]"]
    by simp
qed

subsection \<open>The command protocol\<close>

lemma HPMDoCommand_unfold:
  "HPMDoCommand dev chip command args argsLength out tr =
     (let wr = (args \<noteq> None \<and> argsLength \<noteq> 0);
          wc = Write chip 9 (the args) argsLength 0;
          tr1 = (if wr then tr @ [(wc, dev tr wc)] else tr);
          cc = Command chip (command_code command) 0;
          tr2 = tr1 @ [(cc, dev tr1 cc)];
          rc = Read chip 9 HPMReply_size 0;
          tr3 = tr2 @ [(rc, dev tr2 rc)]
      in if wr \<and> fst (dev tr wc) \<noteq> kIOReturnSuccess then ((fst (dev tr wc), None), tr1)
         else if fst (dev tr1 cc) \<noteq> kIOReturnSuccess then ((fst (dev tr1 cc), None), tr2)
         else if fst (dev tr2 rc) \<noteq> kIOReturnSuccess then ((fst (dev tr2 rc), None), tr3)
         else if snd (dev tr2 rc) = [] then ((kIOReturnSuccess, None), tr3)
         else ((kIOReturnSuccess, if out then Some (hd (snd (dev tr2 rc)) AND 0xf) else None),
               tr3))"
  by (simp add: HPMDoCommand_def perform_eq HPMRead_eq Let_def case_prod_beta hd_conv_nth)

lemma HPMDoCommand_trace:
  "\<exists>es. snd (HPMDoCommand dev chip command args argsLength out tr) = tr @ es \<and> es \<noteq> [] \<and>
        quiet es \<and>
        (args \<noteq> None \<and> argsLength \<noteq> 0 \<longrightarrow> fst (hd es) = Write chip 9 (the args) argsLength 0) \<and>
        (issued es = [] \<or> issued es = [command_code command]) \<and>
        (args = None \<or> argsLength = 0 \<or>
           fst (fst (HPMDoCommand dev chip command args argsLength out tr)) = kIOReturnSuccess
         \<longrightarrow> issued es = [command_code command])"
proof (cases "args \<noteq> None \<and> argsLength \<noteq> 0")
  case True
  then show ?thesis
    by (simp add: HPMDoCommand_unfold Let_def quiet_def)
next
  case False
  then show ?thesis
    by (simp add: HPMDoCommand_unfold Let_def quiet_def)
qed

text \<open>
  Claim C10. In \<open>HPMDoCommand\<close>, when the argument write (if there is one) and the
  command both succeed and the read-back succeeds with a reply of length zero, the
  result is \<open>kIOReturnSuccess\<close> and nothing is stored for the caller. Whenever a result
  code is stored, the caller gave a place for it and the last call was the read-back,
  answered with success and a reply that is not empty, whose first byte masked with
  \<open>0xf\<close> is the stored value.
\<close>

theorem HPMDoCommand_empty_reply:
  "((args \<noteq> None \<and> argsLength \<noteq> 0 \<longrightarrow>
       fst (dev tr (Write chip 9 (the args) argsLength 0)) = kIOReturnSuccess) \<and>
    tr1 = (if args \<noteq> None \<and> argsLength \<noteq> 0
           then tr @ [(Write chip 9 (the args) argsLength 0,
                       dev tr (Write chip 9 (the args) argsLength 0))]
           else tr) \<and>
    fst (dev tr1 (Command chip (command_code command) 0)) = kIOReturnSuccess \<and>
    tr2 = tr1 @ [(Command chip (command_code command) 0,
                  dev tr1 (Command chip (command_code command) 0))] \<and>
    dev tr2 (Read chip 9 HPMReply_size 0) = (kIOReturnSuccess, [])
    \<longrightarrow> fst (HPMDoCommand dev chip command args argsLength out tr) = (kIOReturnSuccess, None)) \<and>
   (snd (fst (HPMDoCommand dev chip command args argsLength out tr)) = Some v
    \<longrightarrow> out \<and>
        (\<exists>reply. reply \<noteq> [] \<and> v = hd reply AND 0xf \<and>
           last (snd (HPMDoCommand dev chip command args argsLength out tr)) =
             (Read chip 9 HPMReply_size 0, (kIOReturnSuccess, reply))))"
proof (intro conjI impI)
  assume "(args \<noteq> None \<and> argsLength \<noteq> 0 \<longrightarrow>
       fst (dev tr (Write chip 9 (the args) argsLength 0)) = kIOReturnSuccess) \<and>
    tr1 = (if args \<noteq> None \<and> argsLength \<noteq> 0
           then tr @ [(Write chip 9 (the args) argsLength 0,
                       dev tr (Write chip 9 (the args) argsLength 0))]
           else tr) \<and>
    fst (dev tr1 (Command chip (command_code command) 0)) = kIOReturnSuccess \<and>
    tr2 = tr1 @ [(Command chip (command_code command) 0,
                  dev tr1 (Command chip (command_code command) 0))] \<and>
    dev tr2 (Read chip 9 HPMReply_size 0) = (kIOReturnSuccess, [])"
  then show "fst (HPMDoCommand dev chip command args argsLength out tr) = (kIOReturnSuccess, None)"
    by (cases args; cases "argsLength = 0") (clarsimp simp add: HPMDoCommand_unfold Let_def)+
next
  assume "snd (fst (HPMDoCommand dev chip command args argsLength out tr)) = Some v"
  then show out
    by (simp add: HPMDoCommand_unfold Let_def split: if_splits)
next
  assume s: "snd (fst (HPMDoCommand dev chip command args argsLength out tr)) = Some v"
  show "\<exists>reply. reply \<noteq> [] \<and> v = hd reply AND 0xf \<and>
           last (snd (HPMDoCommand dev chip command args argsLength out tr)) =
             (Read chip 9 HPMReply_size 0, (kIOReturnSuccess, reply))"
    using s
    by (cases args; cases "argsLength = 0")
      (simp_all add: HPMDoCommand_unfold Let_def prod_eq_iff split: if_splits)
qed

theorem HPMDoCommand_empty_reply_witness:
  "fst (HPMDoCommand (scripted [(0, []), (0, []), (0, [])]) 0 kHPMCommandDBMA
          (Some kHPMCommandArg1) 1 True []) = (kIOReturnSuccess, None) \<and>
   snd (fst (HPMDoCommand (scripted [(0, []), (0, []), (0, [0x35])]) 0 kHPMCommandDBMA
          (Some kHPMCommandArg1) 1 True [])) = Some 5 \<and>
   last (snd (HPMDoCommand (scripted [(0, []), (0, []), (0, [0x35])]) 0 kHPMCommandDBMA
          (Some kHPMCommandArg1) 1 True [])) = (Read 0 9 HPMReply_size 0, (kIOReturnSuccess, [0x35]))"
proof -
  let ?d = "scripted [(0, []), (0, []), (0, [])]"
  let ?e = "scripted [(0, []), (0, []), (0, [0x35])]"
  let ?w = "Write 0 9 kHPMCommandArg1 1 0"
  let ?c = "Command 0 (command_code kHPMCommandDBMA) 0"
  have h: "(Some kHPMCommandArg1 \<noteq> None \<and> (1::nat) \<noteq> 0 \<longrightarrow>
       fst (?d [] (Write 0 9 (the (Some kHPMCommandArg1)) 1 0)) = kIOReturnSuccess) \<and>
    [(?w, (0, []))] = (if Some kHPMCommandArg1 \<noteq> None \<and> (1::nat) \<noteq> 0
           then [] @ [(Write 0 9 (the (Some kHPMCommandArg1)) 1 0,
                       ?d [] (Write 0 9 (the (Some kHPMCommandArg1)) 1 0))]
           else []) \<and>
    fst (?d [(?w, (0, []))] ?c) = kIOReturnSuccess \<and>
    [(?w, (0, [])), (?c, (0, []))] = [(?w, (0, []))] @ [(?c, ?d [(?w, (0, []))] ?c)] \<and>
    ?d [(?w, (0, [])), (?c, (0, []))] (Read 0 9 HPMReply_size 0) = (kIOReturnSuccess, [])"
    by (simp add: scripted_def kIOReturnSuccess_def)
  have s: "snd (fst (HPMDoCommand ?e 0 kHPMCommandDBMA (Some kHPMCommandArg1) 1 True [])) = Some 5"
    by (simp add: HPMDoCommand_unfold Let_def scripted_def kIOReturnSuccess_def)
  from HPMDoCommand_empty_reply [of "Some kHPMCommandArg1" 1 ?d "[]" 0 "[(?w, (0, []))]"
      kHPMCommandDBMA "[(?w, (0, [])), (?c, (0, []))]" True 5] h
  have a: "fst (HPMDoCommand ?d 0 kHPMCommandDBMA (Some kHPMCommandArg1) 1 True []) = (kIOReturnSuccess, None)"
    by blast
  from HPMDoCommand_empty_reply [of "Some kHPMCommandArg1" 1 ?e "[]" 0 "[]"
      kHPMCommandDBMA "[]" True 5] s
  have "\<exists>reply. reply \<noteq> [] \<and> (5 :: byte) = hd reply AND 0xf \<and>
           last (snd (HPMDoCommand ?e 0 kHPMCommandDBMA (Some kHPMCommandArg1) 1 True [])) =
             (Read 0 9 HPMReply_size 0, (kIOReturnSuccess, reply))"
    by blast
  then have b: "last (snd (HPMDoCommand ?e 0 kHPMCommandDBMA (Some kHPMCommandArg1) 1 True [])) =
             (Read 0 9 HPMReply_size 0, (kIOReturnSuccess, [0x35]))"
    by (simp add: HPMDoCommand_unfold Let_def scripted_def kIOReturnSuccess_def)
  from a s b show ?thesis by simp
qed


subsection \<open>Known VDMs\<close>

text \<open>
  Claim C6. Each known VDM is one raw send with selector 3 and flags 0 whose buffer is
  the fixed table and whose length is four bytes a word: List \<open>[0x5ac8010]\<close>, Reboot
  \<open>[0x5ac8012, 0x105, 0x80000000]\<close>, DFU \<open>[0x5ac8012, 0x106, 0x80010000]\<close>, DebugUSB
  \<open>[0x5ac8012, Graceful OR Line1 OR DebugUSB]\<close>, the last word being \<open>0x824606\<close>. The
  bytes handed over are those words in array order.
\<close>

theorem HPMSendKnownVDM_table:
  "HPMSendKnownVDM dev chip kHPMKnownVDMList tr =
     (fst (dev tr (SendVDM chip 3 [0x5ac8010] 4 0)),
      tr @ [(SendVDM chip 3 [0x5ac8010] 4 0, dev tr (SendVDM chip 3 [0x5ac8010] 4 0))]) \<and>
   HPMSendKnownVDM dev chip kHPMKnownVDMReboot tr =
     (fst (dev tr (SendVDM chip 3 [0x5ac8012, 0x105, 0x80000000] 12 0)),
      tr @ [(SendVDM chip 3 [0x5ac8012, 0x105, 0x80000000] 12 0,
             dev tr (SendVDM chip 3 [0x5ac8012, 0x105, 0x80000000] 12 0))]) \<and>
   HPMSendKnownVDM dev chip kHPMKnownVDMDFU tr =
     (fst (dev tr (SendVDM chip 3 [0x5ac8012, 0x106, 0x80010000] 12 0)),
      tr @ [(SendVDM chip 3 [0x5ac8012, 0x106, 0x80010000] 12 0,
             dev tr (SendVDM chip 3 [0x5ac8012, 0x106, 0x80010000] 12 0))]) \<and>
   HPMSendKnownVDM dev chip kHPMKnownVDMDebugUSB tr =
     (fst (dev tr (SendVDM chip 3
             [0x5ac8012, kVDMFlagsGraceful OR kVDMFlagsLine1 OR kVDMActionDebugUSB] 8 0)),
      tr @ [(SendVDM chip 3
               [0x5ac8012, kVDMFlagsGraceful OR kVDMFlagsLine1 OR kVDMActionDebugUSB] 8 0,
             dev tr (SendVDM chip 3
               [0x5ac8012, kVDMFlagsGraceful OR kVDMFlagsLine1 OR kVDMActionDebugUSB] 8 0))]) \<and>
   kVDMFlagsGraceful OR kVDMFlagsLine1 OR kVDMActionDebugUSB = 0x824606 \<and>
   frame_bytes s_body_list (sizeof_words s_body_list) = [0x10, 0x80, 0xac, 0x05] \<and>
   frame_bytes s_body_reboot (sizeof_words s_body_reboot) =
     [0x12, 0x80, 0xac, 0x05, 0x05, 0x01, 0x00, 0x00, 0x00, 0x00, 0x00, 0x80] \<and>
   frame_bytes s_body_debug_dfu (sizeof_words s_body_debug_dfu) =
     [0x12, 0x80, 0xac, 0x05, 0x06, 0x01, 0x00, 0x00, 0x00, 0x00, 0x01, 0x80] \<and>
   frame_bytes s_body_debug (sizeof_words s_body_debug) =
     [0x12, 0x80, 0xac, 0x05, 0x06, 0x46, 0x82, 0x00]"
  by (simp add: HPMSendVDM_eq s_body_list_def s_body_reboot_def s_body_debug_dfu_def
      s_body_debug_def sizeof_words_def kVDMCommandList_def kVDMCommandAction_def
      kVDMActionReboot_def kVDMActionDFU_def kVDMActionDebugUSB_def kVDMFlagsGraceful_def
      kVDMFlagsLine1_def frame_bytes_def word_bytes_def)

theorem HPMSendKnownVDM_table_witness:
  "HPMSendKnownVDM (scripted [(0, [])]) 0 kHPMKnownVDMReboot [] =
     (0, [(SendVDM 0 3 [0x5ac8012, 0x105, 0x80000000] 12 0, (0, []))]) \<and>
   HPMSendKnownVDM (scripted [(0, [])]) 0 kHPMKnownVDMDebugUSB [] =
     (0, [(SendVDM 0 3 [0x5ac8012, 0x824606] 8 0, (0, []))])"
  using HPMSendKnownVDM_table [of "scripted [(0, [])]" 0 "[]"]
  by (simp add: scripted_def)

subsection \<open>The unlock handshake\<close>

lemma command_codes_differ:
  "command_code kHPMCommandLock \<noteq> command_code kHPMCommandGAID"
  by (simp add: bytes_of_def)

text \<open>
  Claim C5. \<open>HPMUnlockACE\<close> in terms of its three possible commands, each run from
  the trace the one before left: when the first Lock succeeds, its result and its trace
  are the result, with nothing after; when it fails, the reset (GAID) is run once, and
  if the reset fails its error and trace are the result, with no second Lock; if the
  reset succeeds, Lock is run once more with the same key and its result is returned.
  On the wire the GAID code is issued exactly once when the first Lock fails and never
  when it succeeds.
\<close>

theorem HPMUnlockACE_handshake:
  "HPMDoCommand dev 0 kHPMCommandLock (HPMGetACEUnlockKey name) 4 False tr = ((r1, o1), tr1) \<Longrightarrow>
   HPMDoCommand dev 0 kHPMCommandGAID None 0 False tr1 = ((r2, o2), tr2) \<Longrightarrow>
   HPMDoCommand dev 0 kHPMCommandLock (HPMGetACEUnlockKey name) 4 False tr2 = ((r3, o3), tr3) \<Longrightarrow>
   (r1 = kIOReturnSuccess \<longrightarrow> HPMUnlockACE dev name tr = (r1, tr1)) \<and>
   (r1 \<noteq> kIOReturnSuccess \<and> r2 \<noteq> kIOReturnSuccess \<longrightarrow> HPMUnlockACE dev name tr = (r2, tr2)) \<and>
   (r1 \<noteq> kIOReturnSuccess \<and> r2 = kIOReturnSuccess \<longrightarrow> HPMUnlockACE dev name tr = (r3, tr3)) \<and>
   count_list (issued (drop (length tr) (snd (HPMUnlockACE dev name tr))))
     (command_code kHPMCommandGAID) = (if r1 = kIOReturnSuccess then 0 else 1)"
proof -
  assume a1: "HPMDoCommand dev 0 kHPMCommandLock (HPMGetACEUnlockKey name) 4 False tr = ((r1, o1), tr1)"
    and a2: "HPMDoCommand dev 0 kHPMCommandGAID None 0 False tr1 = ((r2, o2), tr2)"
    and a3: "HPMDoCommand dev 0 kHPMCommandLock (HPMGetACEUnlockKey name) 4 False tr2 = ((r3, o3), tr3)"
  have u: "HPMUnlockACE dev name tr =
      (if r1 = kIOReturnSuccess then (r1, tr1)
       else if r2 \<noteq> kIOReturnSuccess then (r2, tr2) else (r3, tr3))"
    by (simp add: HPMUnlockACE_def a1 a2 a3)
  from HPMDoCommand_trace [of dev 0 kHPMCommandLock "HPMGetACEUnlockKey name" 4 False tr] a1
  obtain e1 where e1: "tr1 = tr @ e1" "issued e1 = [] \<or> issued e1 = [command_code kHPMCommandLock]"
    by auto
  from HPMDoCommand_trace [of dev 0 kHPMCommandGAID None 0 False tr1] a2
  obtain e2 where e2: "tr2 = tr1 @ e2" "issued e2 = [command_code kHPMCommandGAID]"
    by auto
  from HPMDoCommand_trace [of dev 0 kHPMCommandLock "HPMGetACEUnlockKey name" 4 False tr2] a3
  obtain e3 where e3: "tr3 = tr2 @ e3" "issued e3 = [] \<or> issued e3 = [command_code kHPMCommandLock]"
    by auto
  have c1: "count_list (issued e1) (command_code kHPMCommandGAID) = 0"
    using e1(2) command_codes_differ by auto
  have c3: "count_list (issued e3) (command_code kHPMCommandGAID) = 0"
    using e3(2) command_codes_differ by auto
  have "count_list (issued (drop (length tr) (snd (HPMUnlockACE dev name tr))))
     (command_code kHPMCommandGAID) = (if r1 = kIOReturnSuccess then 0 else 1)"
    using c1 c3 e2(2) by (simp add: u e1(1) e2(1) e3(1) issued_append)
  with u show ?thesis by simp
qed

theorem HPMUnlockACE_handshake_witness:
  "HPMUnlockACE (scripted [(0, []), (1, []), (0, []), (0, [0]), (0, []), (0, []), (0, [0])])
     (Some (bytes_of ''J314'')) [] =
     (kIOReturnSuccess,
      [(Write 0 9 [0x34, 0x31, 0x33, 0x4a] 4 0, (0, [])),
       (Command 0 (command_code kHPMCommandLock) 0, (1, [])),
       (Command 0 (command_code kHPMCommandGAID) 0, (0, [])),
       (Read 0 9 HPMReply_size 0, (0, [0])),
       (Write 0 9 [0x34, 0x31, 0x33, 0x4a] 4 0, (0, [])),
       (Command 0 (command_code kHPMCommandLock) 0, (0, [])),
       (Read 0 9 HPMReply_size 0, (0, [0]))])"
proof -
  let ?d = "scripted [(0, []), (1, []), (0, []), (0, [0]), (0, []), (0, []), (0, [0])]"
  let ?n = "Some (bytes_of ''J314'')"
  let ?t1 = "[(Write 0 9 [0x34, 0x31, 0x33, 0x4a] 4 0, (0, [])),
       (Command 0 (command_code kHPMCommandLock) 0, (1, []))]"
  let ?t2 = "?t1 @ [(Command 0 (command_code kHPMCommandGAID) 0, (0, [])),
       (Read 0 9 HPMReply_size 0, (0, [0]))]"
  let ?t3 = "?t2 @ [(Write 0 9 [0x34, 0x31, 0x33, 0x4a] 4 0, (0, [])),
       (Command 0 (command_code kHPMCommandLock) 0, (0, [])),
       (Read 0 9 HPMReply_size 0, (0, [0]))]"
  have k: "HPMGetACEUnlockKey ?n = Some [0x34, 0x31, 0x33, 0x4a]"
    by (simp add: HPMGetACEUnlockKey_def bytes_of_def word_bytes_def)
  have h1: "HPMDoCommand ?d 0 kHPMCommandLock (HPMGetACEUnlockKey ?n) 4 False [] = ((1, None), ?t1)"
    by (simp add: k HPMDoCommand_unfold Let_def scripted_def kIOReturnSuccess_def)
  have h2: "HPMDoCommand ?d 0 kHPMCommandGAID None 0 False ?t1 = ((0, None), ?t2)"
    by (simp add: HPMDoCommand_unfold Let_def scripted_def kIOReturnSuccess_def)
  have h3: "HPMDoCommand ?d 0 kHPMCommandLock (HPMGetACEUnlockKey ?n) 4 False ?t2 = ((0, None), ?t3)"
    by (simp add: k HPMDoCommand_unfold Let_def scripted_def kIOReturnSuccess_def)
  show ?thesis
    using HPMUnlockACE_handshake [OF h1 h2 h3] by (simp add: kIOReturnSuccess_def)
qed

subsection \<open>Opening a client\<close>

text \<open>
  Claim C9 as stated fails: a service without a \<open>RID\<close> property has no RID equal to
  the one asked for, and \<open>HPMClientOpen\<close> then returns \<open>kIOReturnError\<close>, not
  \<open>kIOReturnNotFound\<close>.
\<close>

theorem HPMClientOpen_counterexample:
  "matching_services port_without_rid = (kIOReturnSuccess, [\<lparr>service = 1, RID = None\<rparr>]) \<and>
   RID \<lparr>service = 1, RID = None\<rparr> \<noteq> Some 0 \<and>
   HPMClientOpen port_without_rid \<lparr>plugin = None, interface = None\<rparr> 0 =
     (kIOReturnError, \<lparr>plugin = None, interface = None\<rparr>) \<and>
   kIOReturnError \<noteq> kIOReturnNotFound"
  by (simp add: port_without_rid_def one_port_def HPMClientOpen_def HPMFindService_def
      kIOReturnSuccess_def kIOReturnError_def kIOReturnNotFound_def)

lemma HPMFindService_loop_no_match:
  "list_all (\<lambda>d. RID d \<noteq> None \<and> RID d \<noteq> Some target) devices \<Longrightarrow>
   HPMFindService_loop target devices = Inl kIOReturnNotFound"
  by (induction devices) auto

text \<open>
  Claim C9, amended. When the enumeration succeeds and every service it yields has a
  \<open>RID\<close> property, none equal to the RID asked for, \<open>HPMClientOpen\<close> returns
  \<open>kIOReturnNotFound\<close> and leaves the client as it was: neither field is set.
\<close>

theorem HPMClientOpen_not_found:
  "matching_services os = (kIOReturnSuccess, devices) \<Longrightarrow>
   list_all (\<lambda>d. RID d \<noteq> None \<and> RID d \<noteq> Some target) devices \<Longrightarrow>
   HPMClientOpen os hpm target = (kIOReturnNotFound, hpm)"
  by (simp add: HPMClientOpen_def HPMFindService_def HPMFindService_loop_no_match)

theorem HPMClientOpen_not_found_witness:
  "matching_services two_ports =
     (kIOReturnSuccess, [\<lparr>service = 1, RID = Some 0\<rparr>, \<lparr>service = 2, RID = Some 1\<rparr>]) \<and>
   HPMClientOpen two_ports \<lparr>plugin = None, interface = None\<rparr> 2 =
     (kIOReturnNotFound, \<lparr>plugin = None, interface = None\<rparr>)"
proof -
  have m: "matching_services two_ports =
     (kIOReturnSuccess, [\<lparr>service = 1, RID = Some 0\<rparr>, \<lparr>service = 2, RID = Some 1\<rparr>])"
    by (simp add: two_ports_def)
  have l: "list_all (\<lambda>d. RID d \<noteq> None \<and> RID d \<noteq> Some 2)
             [\<lparr>service = 1, RID = Some (0 :: 32 word)\<rparr>, \<lparr>service = 2, RID = Some 1\<rparr>]"
    by simp
  show ?thesis
    using m HPMClientOpen_not_found [OF m l] by simp
qed


section \<open>Properties of the tool\<close>

subsection \<open>Entering DBMa mode\<close>

text \<open>
  Claim C8. When the mode query of \<open>cli_enter_dbma_mode\<close> answers DBMa, the function
  succeeds and the only call it has made is that one read: no write, no command, no
  send.
\<close>

theorem cli_enter_dbma_mode_idempotent:
  "fst (HPMGetMode dev tr) = Inr kHPMModeDBMA \<Longrightarrow>
   cli_enter_dbma_mode dev name tr =
     (Inr (), tr @ [(Read 0 3 HPMReply_size 0, dev tr (Read 0 3 HPMReply_size 0))]) \<and>
   quiet (drop (length tr) (snd (cli_enter_dbma_mode dev name tr))) \<and>
   issued (drop (length tr) (snd (cli_enter_dbma_mode dev name tr))) = []"
  by (auto simp add: cli_enter_dbma_mode_def HPMGetMode_def HPMRead_eq quiet_def
      split: prod.splits sum.splits if_splits)

theorem cli_enter_dbma_mode_idempotent_witness:
  "fst (HPMGetMode (scripted [(0, bytes_of ''DBMa'')]) []) = Inr kHPMModeDBMA \<and>
   cli_enter_dbma_mode (scripted [(0, bytes_of ''DBMa'')]) None [] =
     (Inr (), [(Read 0 3 HPMReply_size 0, (0, bytes_of ''DBMa''))])"
proof -
  have h: "fst (HPMGetMode (scripted [(0, bytes_of ''DBMa'')]) []) = Inr kHPMModeDBMA"
    by (simp add: HPMGetMode_def HPMRead_eq scripted_def kIOReturnSuccess_def bytes_of_def)
  show ?thesis
    using h cli_enter_dbma_mode_idempotent [of "scripted [(0, bytes_of ''DBMa'')]" "[]" None]
    by (simp add: scripted_def)
qed


subsection \<open>The calls of the tool's functions\<close>

lemma HPMGetMode_trace:
  "HPMGetMode dev tr = (r, tr') \<Longrightarrow>
   \<exists>e. tr' = tr @ [e] \<and> \<not> is_send e \<and> \<not> is_close e \<and>
       (r = Inr kHPMModeDBMA \<longrightarrow> confirms_dbma e)"
proof -
  assume a: "HPMGetMode dev tr = (r, tr')"
  obtain ret reply where d: "dev tr (Read 0 3 HPMReply_size 0) = (ret, reply)"
    by (cases "dev tr (Read 0 3 HPMReply_size 0)")
  from a d have t: "tr' = tr @ [(Read 0 3 HPMReply_size 0, (ret, reply))]"
    by (auto simp add: HPMGetMode_def HPMRead_eq split: if_splits)
  from a d have "r = Inr kHPMModeDBMA \<longrightarrow>
      ret = kIOReturnSuccess \<and> 4 \<le> length reply \<and> take 4 reply = bytes_of ''DBMa''"
    by (auto simp add: HPMGetMode_def HPMRead_eq split: if_splits)
  with t show ?thesis by simp
qed

lemma HPMGetConnectionType_trace:
  "\<exists>e. snd (HPMGetConnectionType dev tr) = tr @ [e] \<and> \<not> is_send e \<and> \<not> is_close e"
  by (simp add: HPMGetConnectionType_def HPMRead_eq Let_def)

lemma HPMDoCommand_quiet:
  "\<exists>es. snd (HPMDoCommand dev chip command args argsLength out tr) = tr @ es \<and> quiet es"
  using HPMDoCommand_trace [of dev chip command args argsLength out tr] by blast

lemma HPMUnlockACE_trace:
  "\<exists>es. snd (HPMUnlockACE dev name tr) = tr @ es \<and> quiet es"
proof -
  obtain r1 o1 tr1 where a1:
    "HPMDoCommand dev 0 kHPMCommandLock (HPMGetACEUnlockKey name) 4 False tr = ((r1, o1), tr1)"
    by (metis prod.exhaust)
  obtain r2 o2 tr2 where a2:
    "HPMDoCommand dev 0 kHPMCommandGAID None 0 False tr1 = ((r2, o2), tr2)"
    by (metis prod.exhaust)
  obtain r3 o3 tr3 where a3:
    "HPMDoCommand dev 0 kHPMCommandLock (HPMGetACEUnlockKey name) 4 False tr2 = ((r3, o3), tr3)"
    by (metis prod.exhaust)
  from HPMDoCommand_quiet [of dev 0 kHPMCommandLock "HPMGetACEUnlockKey name" 4 False tr] a1
  obtain e1 where e1: "tr1 = tr @ e1" "quiet e1" by auto
  from HPMDoCommand_quiet [of dev 0 kHPMCommandGAID None 0 False tr1] a2
  obtain e2 where e2: "tr2 = tr1 @ e2" "quiet e2" by auto
  from HPMDoCommand_quiet [of dev 0 kHPMCommandLock "HPMGetACEUnlockKey name" 4 False tr2] a3
  obtain e3 where e3: "tr3 = tr2 @ e3" "quiet e3" by auto
  have u: "HPMUnlockACE dev name tr =
      (if r1 = kIOReturnSuccess then (r1, tr1)
       else if r2 \<noteq> kIOReturnSuccess then (r2, tr2) else (r3, tr3))"
    by (simp add: HPMUnlockACE_def a1 a2 a3)
  show ?thesis
    unfolding u using e1 e2 e3 by (simp add: quiet_append)
qed

lemma cli_enter_dbma_mode_trace:
  "cli_enter_dbma_mode dev name tr = (r, tr') \<Longrightarrow>
   \<exists>es. tr' = tr @ es \<and> quiet es \<and> (r = Inr () \<longrightarrow> es \<noteq> [] \<and> confirms_dbma (last es))"
proof -
  assume a: "cli_enter_dbma_mode dev name tr = (r, tr')"
  obtain m1 tr1 where g1: "HPMGetMode dev tr = (m1, tr1)" by (cases "HPMGetMode dev tr")
  from HPMGetMode_trace [OF g1] obtain q1 where q1: "tr1 = tr @ [q1]" "\<not> is_send q1" "\<not> is_close q1"
    "m1 = Inr kHPMModeDBMA \<longrightarrow> confirms_dbma q1" by blast
  obtain ru tr2 where u: "HPMUnlockACE dev name tr1 = (ru, tr2)" by (cases "HPMUnlockACE dev name tr1")
  from HPMUnlockACE_trace [of dev name tr1] u obtain e2 where e2: "tr2 = tr1 @ e2" "quiet e2" by auto
  obtain rd od tr3 where c: "HPMDoCommand dev 0 kHPMCommandDBMA (Some kHPMCommandArg1) 1 False tr2 = ((rd, od), tr3)"
    by (metis prod.exhaust)
  from HPMDoCommand_quiet [of dev 0 kHPMCommandDBMA "Some kHPMCommandArg1" 1 False tr2] c
  obtain e3 where e3: "tr3 = tr2 @ e3" "quiet e3" by auto
  obtain m4 tr4 where g4: "HPMGetMode dev tr3 = (m4, tr4)" by (cases "HPMGetMode dev tr3")
  from HPMGetMode_trace [OF g4] obtain q4 where q4: "tr4 = tr3 @ [q4]" "\<not> is_send q4" "\<not> is_close q4"
    "m4 = Inr kHPMModeDBMA \<longrightarrow> confirms_dbma q4" by blast
  have eq: "cli_enter_dbma_mode dev name tr =
      (case m1 of
         Inl ret \<Rightarrow> (Inl (Failed_get_mode ret), tr1)
       | Inr mode \<Rightarrow>
           if mode = kHPMModeDBMA then (Inr (), tr1)
           else if ru \<noteq> kIOReturnSuccess then (Inl (Failed_unlock ru), tr2)
           else if rd \<noteq> kIOReturnSuccess then (Inl (Failed_request_dbma rd), tr3)
           else (case m4 of
                   Inl ret \<Rightarrow> (Inl (Failed_get_mode ret), tr4)
                 | Inr mode \<Rightarrow>
                     if mode \<noteq> kHPMModeDBMA then (Inl Failed_switch_dbma, tr4)
                     else (Inr (), tr4)))"
    by (simp add: cli_enter_dbma_mode_def g1 u c g4 del: One_nat_def split: sum.splits)
  from a [unfolded eq] q1 e2 e3 q4 show ?thesis
    by (auto simp add: quiet_def split: sum.splits if_splits)
qed

lemma cli_exit_dbma_mode_trace:
  "cli_exit_dbma_mode dev tr = (r, tr') \<Longrightarrow>
   \<exists>e es. tr' = tr @ e # es \<and> starts_restore e \<and> quiet (e # es)"
proof -
  assume a: "cli_exit_dbma_mode dev tr = (r, tr')"
  obtain rd od tr1 where c: "HPMDoCommand dev 0 kHPMCommandDBMA (Some kHPMCommandArg0) 1 False tr = ((rd, od), tr1)"
    by (metis prod.exhaust)
  from HPMDoCommand_trace [of dev 0 kHPMCommandDBMA "Some kHPMCommandArg0" 1 False tr] c
  obtain e1 where e1: "tr1 = tr @ e1" "e1 \<noteq> []" "quiet e1" "fst (hd e1) = Write 0 9 kHPMCommandArg0 1 0"
    by auto
  then obtain e es where ees: "e1 = e # es" by (cases e1) auto
  with e1(4) have sr: "starts_restore e" by (cases e) (simp add: kHPMCommandArg0_def)
  obtain m2 tr2 where g2: "HPMGetMode dev tr1 = (m2, tr2)" by (cases "HPMGetMode dev tr1")
  from HPMGetMode_trace [OF g2] obtain q2 where q2: "tr2 = tr1 @ [q2]" "\<not> is_send q2" "\<not> is_close q2"
    by blast
  have eq: "cli_exit_dbma_mode dev tr =
      (if rd \<noteq> kIOReturnSuccess then (Inl (Failed_request_app rd), tr1)
       else (case m2 of
               Inl ret \<Rightarrow> (Inl (Failed_get_mode ret), tr2)
             | Inr mode \<Rightarrow>
                 if mode = kHPMModeDBMA then (Inl Failed_switch_app, tr2)
                 else (Inr (), tr2)))"
    by (simp add: cli_exit_dbma_mode_def c g2 del: One_nat_def split: sum.splits)
  have t1: "tr1 = tr @ e # es" "quiet (e # es)"
    using e1 ees by simp_all
  have t2: "tr2 = tr @ e # (es @ [q2])" "quiet (e # (es @ [q2]))"
    using t1 q2 by (simp_all add: quiet_def)
  from a [unfolded eq] have "tr' = tr1 \<or> tr' = tr2"
    by (auto split: sum.splits if_splits)
  with t1 t2 sr show ?thesis by blast
qed

lemma main_switch_trace:
  "main_switch dev args c tr = Some (ret, tr') \<Longrightarrow>
   tr' = tr @ [last tr'] \<and> is_send (last tr') \<and> fst (snd (last tr')) = ret"
  by (cases c) (auto simp add: HPMSendVDM_eq split: option.splits)

lemma HPMFindService_loop_Inl:
  "HPMFindService_loop target devices = Inl e \<Longrightarrow> e \<noteq> kIOReturnSuccess"
  by (induction devices)
    (auto simp add: kIOReturnNotFound_def kIOReturnError_def kIOReturnSuccess_def
      split: option.splits if_splits)

lemma HPMFindService_Inl:
  "HPMFindService os target b = Inl e \<Longrightarrow> e \<noteq> kIOReturnSuccess"
  by (auto simp add: HPMFindService_def kIOReturnBadArgument_def kIOReturnSuccess_def
      split: if_splits prod.splits dest: HPMFindService_loop_Inl)

lemma HPMClientOpen_success:
  "HPMClientOpen os h target = (kIOReturnSuccess, hpm) \<Longrightarrow>
   \<exists>p i. plugin hpm = Some p \<and> interface hpm = Some i"
  by (auto simp add: HPMClientOpen_def kIOReturnError_def kIOReturnSuccess_def
      split: sum.splits prod.splits if_splits dest: HPMFindService_Inl)

lemma HPMClientClose_trace:
  "\<exists>c. snd (HPMClientClose dev hpm tr) = tr @ [c] \<and> is_close c"
  by (simp add: HPMClientClose_def perform_eq)

lemma exit_code_Exited: "exit_code (Exited f) = 1"
  by simp

lemma main_cases:
  assumes m: "main os args tr0 = Some (out, tr)"
  shows "(\<exists>es. tr = tr0 @ es \<and> quiet es \<and> exit_code out = 1)
       \<or> (\<exists>es s. tr = tr0 @ es @ [s] \<and> quiet es \<and> es \<noteq> [] \<and> confirms_dbma (last es) \<and>
             is_send s \<and> fst (snd s) \<noteq> kIOReturnSuccess \<and>
             out = Exited (Failed_send (fst (snd s))))
       \<or> (\<exists>es s r ps f. tr = tr0 @ es @ [s] @ r # ps \<and> quiet es \<and> es \<noteq> [] \<and>
             confirms_dbma (last es) \<and> is_send s \<and> fst (snd s) = kIOReturnSuccess \<and>
             starts_restore r \<and> quiet (r # ps) \<and> out = Exited f)
       \<or> (\<exists>es s r ps c. tr = tr0 @ es @ [s] @ r # ps @ [c] \<and> quiet es \<and> es \<noteq> [] \<and>
             confirms_dbma (last es) \<and> is_send s \<and> fst (snd s) = kIOReturnSuccess \<and>
             starts_restore r \<and> quiet (r # ps) \<and> is_close c \<and> out = Returned 0)"
    (is "?D1 \<or> ?D2 \<or> ?D3 \<or> ?D4")
proof (cases "cmd args = CMD_HELP \<or> euid os \<noteq> 0")
  case True
  with m have "Some (out, tr) = Some (Returned 1, tr0) \<or> Some (out, tr) = Some (Exited Not_root, tr0)"
    by (cases "cmd args = CMD_HELP") (simp_all add: main_def)
  then have "tr = tr0 @ []" "exit_code out = 1"
    by auto
  then have ?D1 by (simp add: quiet_def)
  then show ?thesis by blast
next
  case pre: False
  obtain ret hpm where op: "HPMClientOpen os \<lparr>plugin = None, interface = None\<rparr> (rid args) = (ret, hpm)"
    by (cases "HPMClientOpen os \<lparr>plugin = None, interface = None\<rparr> (rid args)")
  show ?thesis
  proof (cases "ret = kIOReturnSuccess")
    case False
    with m pre op have "Some (out, tr) = Some (Exited (Failed_open (rid args) ret), tr0)"
      by (simp add: main_def)
    then have "tr = tr0 @ []" "exit_code out = 1"
      by auto
    then have ?D1 by (simp add: quiet_def)
    then show ?thesis by blast
  next
    case ok: True
    from HPMClientOpen_success op ok obtain p i where pi: "plugin hpm = Some p" "interface hpm = Some i"
      by blast
    define dev where "dev = interface_impl os i"
    obtain ct tr1 where conn: "HPMGetConnectionType dev tr0 = (ct, tr1)"
      by (cases "HPMGetConnectionType dev tr0")
    from HPMGetConnectionType_trace [of dev tr0] conn
    obtain e0 where e0: "tr1 = tr0 @ [e0]" "quiet [e0]"
      by (auto simp add: quiet_def)
    obtain r2 tr2 where en: "cli_enter_dbma_mode dev (platform_name os) tr1 = (r2, tr2)"
      by (cases "cli_enter_dbma_mode dev (platform_name os) tr1")
    from cli_enter_dbma_mode_trace [OF en]
    obtain es2 where es2: "tr2 = tr1 @ es2" "quiet es2"
      "r2 = Inr () \<longrightarrow> es2 \<noteq> [] \<and> confirms_dbma (last es2)"
      by blast
    have eq1: "main os args tr0 =
       (if ct = kHPMConnectionTypeError then Some (Exited Failed_connection_type, tr1)
        else if ct = kHPMConnectionTypeNone then Some (Exited (No_connection (rid args)), tr1)
        else (case r2 of
                Inl f \<Rightarrow> Some (Exited f, tr2)
              | Inr _ \<Rightarrow>
                  (case main_switch dev args (cmd args) tr2 of
                     None \<Rightarrow> None
                   | Some (ret, tr3) \<Rightarrow>
                       if ret \<noteq> kIOReturnSuccess then Some (Exited (Failed_send ret), tr3)
                       else
                         (case cli_exit_dbma_mode dev tr3 of
                            (Inl f, tr4) \<Rightarrow> Some (Exited f, tr4)
                          | (Inr _, tr4) \<Rightarrow>
                              Some (Returned 0, snd (HPMClientClose dev hpm tr4))))))"
      using pre
      by (simp add: main_def op ok pi dev_def [symmetric] conn en Let_def case_prod_beta
          split: sum.splits option.splits)
    show ?thesis
    proof (cases "ct = kHPMConnectionTypeError \<or> ct = kHPMConnectionTypeNone \<or> (\<exists>f. r2 = Inl f)")
      case True
      with m [unfolded eq1] have "(tr = tr1 \<or> tr = tr2) \<and> exit_code out = 1"
        by (auto split: if_splits)
      with e0 es2 have ?D1
        by (auto simp add: quiet_def)
      then show ?thesis by blast
    next
      case go: False
      then have r2: "r2 = Inr ()" by (cases r2) auto
      with es2 have c2: "es2 \<noteq> []" "confirms_dbma (last es2)" by simp_all
      from m [unfolded eq1] go r2
      obtain rs tr3 where sw: "main_switch dev args (cmd args) tr2 = Some (rs, tr3)"
        by (auto split: option.splits)
      from main_switch_trace [OF sw] obtain s where s: "tr3 = tr2 @ [s]" "is_send s" "fst (snd s) = rs"
        by blast
      let ?es = "e0 # es2"
      have pre3: "tr3 = tr0 @ ?es @ [s]" "quiet ?es" "?es \<noteq> []" "confirms_dbma (last ?es)"
        using e0 es2 c2 s by (simp_all add: quiet_def)
      show ?thesis
      proof (cases "rs = kIOReturnSuccess")
        case False
        with m [unfolded eq1] go r2 sw have "tr = tr3" "out = Exited (Failed_send rs)"
          by auto
        with pre3 s False have ?D2 by blast
        then show ?thesis by blast
      next
        case sok: True
        obtain r4 tr4 where ex: "cli_exit_dbma_mode dev tr3 = (r4, tr4)"
          by (cases "cli_exit_dbma_mode dev tr3")
        from cli_exit_dbma_mode_trace [OF ex]
        obtain r ps where rp: "tr4 = tr3 @ r # ps" "starts_restore r" "quiet (r # ps)"
          by blast
        show ?thesis
        proof (cases r4)
          case (Inl f)
          with m [unfolded eq1] go r2 sw sok ex have "tr = tr4" "out = Exited f"
            by auto
          with pre3(1) rp(1) have "tr = tr0 @ ?es @ [s] @ r # ps" "out = Exited f"
            by simp_all
          with pre3(2-4) s(2,3) sok rp(2,3) have ?D3 by blast
          then show ?thesis by blast
        next
          case (Inr u)
          with m [unfolded eq1] go r2 sw sok ex
          have t: "tr = snd (HPMClientClose dev hpm tr4)" "out = Returned 0"
            by auto
          from HPMClientClose_trace [of dev hpm tr4] t
          obtain c where c: "tr = tr4 @ [c]" "is_close c" by auto
          with pre3(1) rp(1) have "tr = tr0 @ ?es @ [s] @ r # ps @ [c]"
            by simp
          with pre3(2-4) s(2,3) sok rp(2,3) c(2) t(2) have ?D4 by blast
          then show ?thesis by blast
        qed
      qed
    qed
  qed
qed

subsection \<open>Sessions\<close>

lemma args_parse_reboot: "args_parse [''vdmpoke'', ''-r0'', ''reboot''] 2 0 = Some reboot_args"
  by (simp add: args_parse_def reboot_args_def eval_nat_numeral)

lemma args_parse_custom:
  "args_parse [''vdmpoke'', ''-r0'', ''custom'', ''5ac8012'', ''105'', ''80000000''] 2 0 =
     Some custom_args"
  by (simp add: args_parse_def custom_args_def eval_nat_numeral)

lemma sends_confirmed_no_send:
  "list_all (\<lambda>e. \<not> is_send e) es \<Longrightarrow> sends_confirmed b es"
  by (induction es arbitrary: b) auto

lemma sends_confirmed_append:
  "sends_confirmed b (es @ fs) =
     (sends_confirmed b es \<and>
      sends_confirmed (if es = [] then b else confirms_dbma (last es)) fs)"
  by (induction es arbitrary: b) auto

lemma after_send_no_send: "list_all (\<lambda>e. \<not> is_send e) es \<Longrightarrow> after_send es"
  by (induction es) auto

lemma after_send_append:
  "list_all (\<lambda>e. \<not> is_send e) es \<Longrightarrow> after_send (es @ fs) = after_send fs"
  by (induction es) auto

lemma close_after_restore_True: "close_after_restore True es"
  by (induction es) auto

lemma close_after_restore_no_close:
  "list_all (\<lambda>e. \<not> is_close e) es \<Longrightarrow> close_after_restore b es"
  by (induction es arbitrary: b) auto

lemma close_after_restore_append:
  "list_all (\<lambda>e. \<not> is_close e) es \<Longrightarrow>
   close_after_restore b (es @ fs) = close_after_restore (b \<or> list_ex starts_restore es) fs"
  by (induction es arbitrary: b) auto

lemma quiet_no_send: "quiet es \<Longrightarrow> list_all (\<lambda>e. \<not> is_send e) es"
  by (simp add: quiet_def list_all_iff)

lemma quiet_no_close: "quiet es \<Longrightarrow> list_all (\<lambda>e. \<not> is_close e) es"
  by (simp add: quiet_def list_all_iff)

lemma send_not_close: "is_send e \<Longrightarrow> \<not> is_close e"
  by (cases e rule: is_send.cases) simp_all

lemma close_not_send: "is_close e \<Longrightarrow> \<not> is_send e"
  by (cases e rule: is_close.cases) simp_all

text \<open>
  Claim C2, amended. In every session each VDM transmission comes directly after a mode
  query that the chip answered with \<open>DBMa\<close>. After a send that succeeded the very next
  call starts the restore of Application mode (the \<open>DBMa\<close> command with argument 0), and
  the handle is released only after that. A send that failed is the last call of the
  session: the process exits with status 1, with no attempt to restore and no release.
\<close>

theorem main_send_discipline:
  assumes m: "main os args [] = Some (out, tr)"
  shows "sends_confirmed False tr \<and> after_send tr \<and> close_after_restore False tr \<and>
         (list_ex failed_send tr \<longrightarrow> exit_code out = 1)"
proof -
  from main_cases [OF m] consider
      (none) es where "tr = es" "quiet es" "exit_code out = 1"
    | (failed) es s where "tr = es @ [s]" "quiet es" "es \<noteq> []" "confirms_dbma (last es)"
        "is_send s" "fst (snd s) \<noteq> kIOReturnSuccess" "out = Exited (Failed_send (fst (snd s)))"
    | (stuck) es s r ps f where "tr = es @ [s] @ r # ps" "quiet es" "es \<noteq> []"
        "confirms_dbma (last es)" "is_send s" "fst (snd s) = kIOReturnSuccess"
        "starts_restore r" "quiet (r # ps)" "out = Exited f"
    | (closed) es s r ps c where "tr = es @ [s] @ r # ps @ [c]" "quiet es" "es \<noteq> []"
        "confirms_dbma (last es)" "is_send s" "fst (snd s) = kIOReturnSuccess"
        "starts_restore r" "quiet (r # ps)" "is_close c" "out = Returned 0"
    by auto
  then show ?thesis
  proof cases
    case none
    then show ?thesis
      by (simp add: sends_confirmed_no_send after_send_no_send close_after_restore_no_close
          quiet_no_send quiet_no_close)
  next
    case failed
    have 1: "sends_confirmed False tr"
      using failed by (simp add: sends_confirmed_append sends_confirmed_no_send quiet_no_send)
    have 2: "after_send tr"
      using failed by (simp add: after_send_append quiet_no_send)
    have 3: "close_after_restore False tr"
      using failed by (simp add: close_after_restore_append quiet_no_close send_not_close)
    from 1 2 3 failed(7) show ?thesis by simp
  next
    case stuck
    have q: "list_all (\<lambda>e. \<not> is_send e) (r # ps)" "list_all (\<lambda>e. \<not> is_close e) (r # ps)"
      using stuck(8) by (simp_all add: quiet_def list_all_iff)
    have 1: "sends_confirmed False tr"
      using stuck q by (simp add: sends_confirmed_append sends_confirmed_no_send quiet_no_send)
    have 2: "after_send tr"
      using stuck q by (simp add: after_send_append after_send_no_send quiet_no_send)
    have 3: "close_after_restore False tr"
      using stuck q
      by (simp add: close_after_restore_append close_after_restore_no_close quiet_no_close
          send_not_close)
    from 1 2 3 stuck(9) show ?thesis by simp
  next
    case closed
    have q: "list_all (\<lambda>e. \<not> is_send e) (r # ps @ [c])" "list_all (\<lambda>e. \<not> is_close e) (r # ps)"
      using closed(8,9) by (simp_all add: quiet_def list_all_iff close_not_send)
    have 1: "sends_confirmed False tr"
      using closed(1-5) q(1)
      by (simp add: sends_confirmed_append sends_confirmed_no_send quiet_no_send)
    have 2: "after_send tr"
      using closed(1-7) q(1) by (simp add: after_send_append after_send_no_send quiet_no_send)
    have "close_after_restore False (es @ s # r # ps @ [c])"
      using closed(2,5,7) q(2)
      by (simp add: close_after_restore_append close_after_restore_True quiet_no_close
          send_not_close)
    then have 3: "close_after_restore False tr" using closed(1) by simp
    have 4: "\<not> list_ex failed_send tr"
      using closed(1,2,6,8,9) by (auto simp add: failed_send_def quiet_def list_ex_iff list_all_iff close_not_send)
    from 1 2 3 4 show ?thesis by simp
  qed
qed




subsection \<open>Sessions that were run\<close>

lemmas run_defs =
  main_def one_port_def scripted_def reboot_args_def custom_args_def HPMClientOpen_def
  HPMFindService_def HPMGetConnectionType_def HPMRead_eq HPMGetMode_def cli_enter_dbma_mode_def
  cli_exit_dbma_mode_def HPMUnlockACE_def HPMDoCommand_unfold HPMSendVDM_eq HPMClientClose_def
  perform_eq HPMGetACEUnlockKey_def word_bytes_def bytes_of_def
  kIOReturnSuccess_def kIOReturnError_def kIOReturnNotFound_def S_OK_def
  kHPMConnectionTypeError_def kHPMConnectionTypeNone_def kHPMConnectionTypeMask_def
  kHPMCommandArg0_def kHPMCommandArg1_def s_body_reboot_def sizeof_words_def
  kVDMCommandAction_def kVDMActionReboot_def Let_def

lemma session_run:
  "main (one_port session_script) reboot_args [] = Some (Returned 0, session_trace)"
  by (simp add: run_defs session_script_def session_trace_def)

lemma failed_send_run:
  "main (one_port [(0, [0x01]), (0, bytes_of ''DBMa''), (1, [])]) reboot_args [] =
     Some (Exited (Failed_send 1), failed_send_trace)"
  by (simp add: run_defs failed_send_trace_def)

text \<open>
  Claim C2 as stated fails: in this session the send fails and the process exits at
  once; no restore of Application mode is attempted and the handle is not released.
\<close>

theorem main_send_discipline_counterexample:
  "main (one_port [(0, [0x01]), (0, bytes_of ''DBMa''), (1, [])]) reboot_args [] =
     Some (Exited (Failed_send 1), failed_send_trace) \<and>
   failed_send (last failed_send_trace) \<and>
   \<not> list_ex starts_restore failed_send_trace \<and>
   \<not> list_ex is_close failed_send_trace"
  by (simp add: failed_send_run)
    (simp add: failed_send_trace_def failed_send_def kIOReturnSuccess_def)

theorem main_send_discipline_witness:
  "main (one_port session_script) reboot_args [] = Some (Returned 0, session_trace) \<and>
   sends_confirmed False session_trace \<and> after_send session_trace \<and>
   close_after_restore False session_trace \<and>
   main (one_port [(0, [0x01]), (0, bytes_of ''DBMa''), (1, [])]) reboot_args [] =
     Some (Exited (Failed_send 1), failed_send_trace) \<and>
   list_ex failed_send failed_send_trace \<and>
   exit_code (Exited (Failed_send 1)) = 1"
proof -
  have f: "list_ex failed_send failed_send_trace"
    by (simp add: failed_send_trace_def failed_send_def kIOReturnSuccess_def)
  show ?thesis
    using main_send_discipline [OF session_run] main_send_discipline [OF failed_send_run]
      session_run failed_send_run f
    by simp
qed




subsection \<open>Custom VDMs\<close>

lemma main_custom_loop_gen:
  "num_rest args = int n \<Longrightarrow> n \<le> 8 \<Longrightarrow> take n (rest args) = map Some ts \<Longrightarrow> length ts = n \<Longrightarrow>
   length words = 8 \<Longrightarrow> i \<le> n \<Longrightarrow>
   main_custom_loop args i words nw =
     Some (take i words @ map (\<lambda>t. word_of_int (strtol16 t)) (drop i ts) @ drop n words,
           nw + int (n - i))"
proof (induction "n - i" arbitrary: i words nw)
  case 0
  then have "i = n" by simp
  with 0 show ?case
    by (simp add: main_custom_loop.simps)
next
  case (Suc k)
  then have lt: "i < n" by simp
  from Suc.prems have len: "n \<le> length (rest args)"
    by (metis length_map length_take min.cobounded1 min_def)
  have ri: "rest args ! i = Some (ts ! i)"
  proof -
    have "rest args ! i = take n (rest args) ! i" using lt by simp
    also have "\<dots> = Some (ts ! i)" using Suc.prems lt by simp
    finally show ?thesis .
  qed
  have dr: "drop i ts = ts ! i # drop (Suc i) ts"
    using lt Suc.prems by (simp add: Cons_nth_drop_Suc)
  have k: "k = n - Suc i" using Suc.hyps(2) by simp
  have step: "main_custom_loop args i words nw =
      main_custom_loop args (Suc i) (words[i := word_of_int (strtol16 (ts ! i))]) (nw + 1)"
    using lt len Suc.prems ri by (subst main_custom_loop.simps) simp
  have ih: "main_custom_loop args (Suc i) (words[i := word_of_int (strtol16 (ts ! i))]) (nw + 1) =
      Some (take (Suc i) (words[i := word_of_int (strtol16 (ts ! i))]) @
            map (\<lambda>t. word_of_int (strtol16 t)) (drop (Suc i) ts) @
            drop n (words[i := word_of_int (strtol16 (ts ! i))]),
            nw + 1 + int (n - Suc i))"
    using Suc.hyps(1) [OF k Suc.prems(1-4)] Suc.prems(5) lt by simp
  have t: "take (Suc i) (words[i := word_of_int (strtol16 (ts ! i))]) =
      take i words @ [word_of_int (strtol16 (ts ! i))]"
    using lt Suc.prems by (simp add: take_Suc_conv_app_nth)
  have d: "drop n (words[i := word_of_int (strtol16 (ts ! i))]) = drop n words"
    using lt by simp
  have c: "nw + 1 + int (n - Suc i) = nw + int (n - i)" using lt by simp
  show ?case
    unfolding step ih t d c dr by simp
qed

lemma main_custom_loop_words:
  "num_rest args = int n \<Longrightarrow> n \<le> 8 \<Longrightarrow> take n (rest args) = map Some ts \<Longrightarrow> length ts = n \<Longrightarrow>
   main_custom_loop args 0 (replicate 8 0) 0 =
     Some (map (\<lambda>t. word_of_int (strtol16 t)) ts @ replicate (8 - n) 0, int n)"
  using main_custom_loop_gen [of args n ts "replicate 8 0" 0 0] by simp

lemma hex_value_stop:
  "hex_digit c = None \<Longrightarrow> list_all is_hex ds \<Longrightarrow> hex_value a (ds @ c # cs) = hex_value a ds"
  by (induction ds arbitrary: a) (auto simp add: is_hex_def)

lemma is_hex_not_space: "is_hex c \<Longrightarrow> \<not> isspace c"
  by (auto simp add: is_hex_def isspace_def hex_digit_def Let_def split: if_splits)

lemma is_hex_not_sign: "is_hex c \<Longrightarrow> c \<noteq> CHR ''-'' \<and> c \<noteq> CHR ''+''"
  by (auto simp add: is_hex_def hex_digit_def Let_def split: if_splits)

lemma is_hex_not_x: "is_hex c \<Longrightarrow> c \<noteq> CHR ''x'' \<and> c \<noteq> CHR ''X''"
  by (auto simp add: is_hex_def hex_digit_def Let_def split: if_splits)

lemma strip_0x_hex:
  "list_all is_hex ds \<Longrightarrow> ds \<noteq> [] \<Longrightarrow> c \<noteq> CHR ''x'' \<Longrightarrow> c \<noteq> CHR ''X'' \<Longrightarrow>
   strip_0x (ds @ c # cs) = ds @ c # cs"
proof (cases ds)
  case Nil
  then show "ds \<noteq> [] \<Longrightarrow> ?thesis" by simp
next
  case (Cons a as)
  assume h: "list_all is_hex ds" and x: "c \<noteq> CHR ''x''" "c \<noteq> CHR ''X''"
  show ?thesis
  proof (cases as)
    case Nil
    with Cons x show ?thesis by simp
  next
    case (Cons b bs)
    with \<open>ds = a # as\<close> h have "is_hex b" by simp
    then have "b \<noteq> CHR ''x'' \<and> b \<noteq> CHR ''X''" by (rule is_hex_not_x)
    with Cons \<open>ds = a # as\<close> show ?thesis by simp
  qed
qed

lemma strip_0x_hex_only:
  "list_all is_hex ds \<Longrightarrow> strip_0x ds = ds"
proof (cases ds)
  case Nil
  then show ?thesis by simp
next
  case (Cons a as)
  assume h: "list_all is_hex ds"
  show ?thesis
  proof (cases as)
    case Nil
    with Cons show ?thesis by simp
  next
    case (Cons b bs)
    with \<open>ds = a # as\<close> h have "is_hex b" by simp
    then have "b \<noteq> CHR ''x'' \<and> b \<noteq> CHR ''X''" by (rule is_hex_not_x)
    with Cons \<open>ds = a # as\<close> show ?thesis by simp
  qed
qed

lemma strtol16_hex_only:
  "list_all is_hex ds \<Longrightarrow> ds \<noteq> [] \<Longrightarrow>
   strtol16 ds = (if int (hex_value 0 ds) > LONG_MAX then LONG_MAX else int (hex_value 0 ds))"
proof -
  assume h: "list_all is_hex ds" and ne: "ds \<noteq> []"
  then obtain a as where ds: "ds = a # as" by (cases ds) auto
  with h have a: "is_hex a" by simp
  have 1: "dropWhile isspace ds = ds"
    using a ds is_hex_not_space by simp
  have 2: "strip_sign ds = (False, ds)"
    using a ds is_hex_not_sign by simp
  show ?thesis
    by (simp add: strtol16_def 1 2 strip_0x_hex_only [OF h])
qed

lemma strtol16_prefix:
  "list_all is_hex ds \<Longrightarrow> ds \<noteq> [] \<Longrightarrow> hex_digit c = None \<Longrightarrow> c \<noteq> CHR ''x'' \<Longrightarrow> c \<noteq> CHR ''X'' \<Longrightarrow>
   strtol16 (ds @ c # cs) = strtol16 ds"
proof -
  assume h: "list_all is_hex ds" and ne: "ds \<noteq> []" and c: "hex_digit c = None"
    and x: "c \<noteq> CHR ''x''" "c \<noteq> CHR ''X''"
  then obtain a as where ds: "ds = a # as" by (cases ds) auto
  with h have a: "is_hex a" by simp
  have 1: "dropWhile isspace (ds @ c # cs) = ds @ c # cs"
    using a ds is_hex_not_space by simp
  have 2: "strip_sign (ds @ c # cs) = (False, ds @ c # cs)"
    using a ds is_hex_not_sign by simp
  have "strtol16 (ds @ c # cs) =
      (if int (hex_value 0 ds) > LONG_MAX then LONG_MAX else int (hex_value 0 ds))"
    by (simp add: strtol16_def 1 2 strip_0x_hex [OF h ne x] hex_value_stop [OF c h])
  then show ?thesis
    by (simp add: strtol16_hex_only [OF h ne])
qed

lemma strtol16_no_digits:
  "hex_digit c = None \<Longrightarrow> \<not> isspace c \<Longrightarrow> c \<noteq> CHR ''-'' \<Longrightarrow> c \<noteq> CHR ''+'' \<Longrightarrow>
   strtol16 (c # cs) = 0"
proof -
  assume c: "hex_digit c = None" "\<not> isspace c" "c \<noteq> CHR ''-''" "c \<noteq> CHR ''+''"
  have z: "c \<noteq> CHR ''0''"
    using c(1) by (auto simp add: hex_digit_def)
  have "strip_0x (c # cs) = c # cs"
    using z by (cases cs) simp_all
  then show ?thesis
    using c by (simp add: strtol16_def LONG_MAX_def)
qed

lemma hex_digit_less: "hex_digit c = Some d \<Longrightarrow> d < 16"
  by (auto simp add: hex_digit_def Let_def split: if_splits)

lemma hex_value_bound:
  "list_all is_hex ds \<Longrightarrow> a < 16 ^ k \<Longrightarrow> hex_value a ds < 16 ^ (k + length ds)"
proof (induction ds arbitrary: a k)
  case Nil
  then show ?case by simp
next
  case (Cons c cs)
  then obtain d where d: "hex_digit c = Some d" by (auto simp add: is_hex_def)
  then have "d < 16" by (rule hex_digit_less)
  with Cons.prems(2) have "16 * a + d < 16 ^ Suc k"
    by simp
  from Cons.IH [OF _ this] Cons.prems(1) d show ?case by simp
qed

lemma strtol16_valid:
  "list_all is_hex ds \<Longrightarrow> ds \<noteq> [] \<Longrightarrow> length ds \<le> 8 \<Longrightarrow>
   unat (word_of_int (strtol16 ds) :: 32 word) = hex_value 0 ds"
proof -
  assume h: "list_all is_hex ds" and ne: "ds \<noteq> []" and l: "length ds \<le> 8"
  have "hex_value 0 ds < 16 ^ (0 + length ds)"
    by (rule hex_value_bound [OF h]) simp
  also have "\<dots> \<le> (16 :: nat) ^ 8" using l by (intro power_increasing) simp_all
  finally have b: "hex_value 0 ds < 2 ^ 32" by simp
  then have "int (hex_value 0 ds) \<le> LONG_MAX" by (simp add: LONG_MAX_def)
  then have "strtol16 ds = int (hex_value 0 ds)"
    by (simp add: strtol16_hex_only [OF h ne])
  then show ?thesis
    using b by (simp add: unat_of_nat)
qed

text \<open>
  Claim C1, as the code has it. When the argument record holds \<open>n\<close> tokens (at most 8),
  the \<open>CMD_CUSTOM\<close> case makes one raw send whose buffer is the array of eight words: the
  tokens' values in command-line order, then zeros. The length it passes is \<open>n\<close>, the
  number of words, where the claim has \<open>4 * n\<close> bytes. A token of up to eight
  hexadecimal digits gives the word it spells; a token that goes on after such digits
  gives the value of the digits, not 0; a token that starts with no digit, sign or
  white space gives 0. No token stops the command.
\<close>

theorem main_custom_frame:
  "(num_rest args = int n \<and> n \<le> 8 \<and> take n (rest args) = map Some ts \<and> length ts = n \<longrightarrow>
      (let c = SendVDM 0 3 (map (\<lambda>t. word_of_int (strtol16 t)) ts @ replicate (8 - n) 0) n 0
       in main_switch dev args CMD_CUSTOM tr = Some (fst (dev tr c), tr @ [(c, dev tr c)]))) \<and>
   (list_all is_hex ds \<and> ds \<noteq> [] \<and> length ds \<le> 8 \<longrightarrow>
      unat (word_of_int (strtol16 ds) :: 32 word) = hex_value 0 ds) \<and>
   (list_all is_hex ds \<and> ds \<noteq> [] \<and> hex_digit c = None \<and> c \<noteq> CHR ''x'' \<and> c \<noteq> CHR ''X'' \<longrightarrow>
      strtol16 (ds @ c # cs) = strtol16 ds) \<and>
   (hex_digit c = None \<and> \<not> isspace c \<and> c \<noteq> CHR ''-'' \<and> c \<noteq> CHR ''+'' \<longrightarrow>
      strtol16 (c # cs) = 0)"
proof (intro conjI impI)
  assume "num_rest args = int n \<and> n \<le> 8 \<and> take n (rest args) = map Some ts \<and> length ts = n"
  then have "main_custom_loop args 0 (replicate 8 0) 0 =
     Some (map (\<lambda>t. word_of_int (strtol16 t)) ts @ replicate (8 - n) 0, int n)"
    by (simp add: main_custom_loop_words)
  then show "let c = SendVDM 0 3 (map (\<lambda>t. word_of_int (strtol16 t)) ts @ replicate (8 - n) 0) n 0
       in main_switch dev args CMD_CUSTOM tr = Some (fst (dev tr c), tr @ [(c, dev tr c)])"
    by (simp add: HPMSendVDM_eq)
next
  assume "list_all is_hex ds \<and> ds \<noteq> [] \<and> length ds \<le> 8"
  then show "unat (word_of_int (strtol16 ds) :: 32 word) = hex_value 0 ds"
    by (simp add: strtol16_valid)
next
  assume "list_all is_hex ds \<and> ds \<noteq> [] \<and> hex_digit c = None \<and> c \<noteq> CHR ''x'' \<and> c \<noteq> CHR ''X''"
  then show "strtol16 (ds @ c # cs) = strtol16 ds"
    by (simp add: strtol16_prefix)
next
  assume "hex_digit c = None \<and> \<not> isspace c \<and> c \<noteq> CHR ''-'' \<and> c \<noteq> CHR ''+''"
  then show "strtol16 (c # cs) = 0"
    by (simp add: strtol16_no_digits)
qed

lemmas strtol16_eval =
  strtol16_def isspace_def hex_digit_def LONG_MAX_def LONG_MIN_def Let_def

lemma custom_tokens:
  "word_of_int (strtol16 ''custom'') = (0xc :: 32 word)"
  "word_of_int (strtol16 ''5ac8012'') = (0x5ac8012 :: 32 word)"
  "word_of_int (strtol16 ''105'') = (0x105 :: 32 word)"
  "word_of_int (strtol16 ''80000000'') = (0x80000000 :: 32 word)"
  by (simp_all add: strtol16_eval)

theorem main_custom_frame_witness:
  "args_parse [''vdmpoke'', ''-r0'', ''custom'', ''5ac8012'', ''105'', ''80000000''] 2 0 =
     Some custom_args \<and>
   main_switch (scripted [(0, [])]) custom_args CMD_CUSTOM [] =
     Some (0, [(SendVDM 0 3 [0xc, 0x5ac8012, 0x105, 0x80000000, 0, 0, 0, 0] 4 0, (0, []))]) \<and>
   frame_bytes [0xc, 0x5ac8012, 0x105, 0x80000000, 0, 0, 0, 0] 4 = [0x0c, 0x00, 0x00, 0x00] \<and>
   unat (word_of_int (strtol16 ''5ac8012'') :: 32 word) = 0x5ac8012 \<and>
   strtol16 ''1g'' = 1 \<and>
   strtol16 ''zz'' = 0"
proof -
  let ?ts = "[''custom'', ''5ac8012'', ''105'', ''80000000'']"
  have a: "num_rest custom_args = int 4 \<and> (4 :: nat) \<le> 8 \<and>
      take 4 (rest custom_args) = map Some ?ts \<and> length ?ts = 4"
    by (simp add: custom_args_def)
  have b: "list_all is_hex ''5ac8012'' \<and> ''5ac8012'' \<noteq> [] \<and> length ''5ac8012'' \<le> 8"
    by (simp add: is_hex_def hex_digit_def)
  have v: "hex_value 0 ''5ac8012'' = 0x5ac8012"
    by (simp add: hex_digit_def)
  have c: "list_all is_hex ''1'' \<and> ''1'' \<noteq> [] \<and> hex_digit CHR ''g'' = None \<and>
      CHR ''g'' \<noteq> CHR ''x'' \<and> CHR ''g'' \<noteq> CHR ''X''"
    by (simp add: is_hex_def hex_digit_def)
  have d: "hex_digit CHR ''z'' = None \<and> \<not> isspace CHR ''z'' \<and> CHR ''z'' \<noteq> CHR ''-'' \<and>
      CHR ''z'' \<noteq> CHR ''+''"
    by (simp add: hex_digit_def isspace_def)
  have one: "strtol16 ''1'' = 1"
    by (simp add: strtol16_eval)
  have r: "replicate (8 - 4) (0 :: 32 word) = [0, 0, 0, 0]"
    by (simp add: numeral_eq_Suc)
  from main_custom_frame [of custom_args 4 ?ts "scripted [(0, [])]" "[]" "''5ac8012''"
      "CHR ''g''" "[]"] a b
  have 1: "main_switch (scripted [(0, [])]) custom_args CMD_CUSTOM [] =
     Some (0, [(SendVDM 0 3 [0xc, 0x5ac8012, 0x105, 0x80000000, 0, 0, 0, 0] 4 0, (0, []))])"
    and 2: "unat (word_of_int (strtol16 ''5ac8012'') :: 32 word) = hex_value 0 ''5ac8012''"
    unfolding r by (simp_all add: custom_tokens scripted_def Let_def)
  from main_custom_frame [of custom_args 4 ?ts "scripted [(0, [])]" "[]" "''1''" "CHR ''g''" "[]"] c
  have 3: "strtol16 ''1g'' = strtol16 ''1''"
    by simp
  from main_custom_frame [of custom_args 4 ?ts "scripted [(0, [])]" "[]" "''1''" "CHR ''z''" "''z''"] d
  have 4: "strtol16 ''zz'' = 0"
    by simp
  have 5: "frame_bytes [0xc, 0x5ac8012, 0x105, 0x80000000, 0, 0, 0, 0] 4 = [0x0c, 0x00, 0x00, 0x00]"
    by (simp add: frame_bytes_def word_bytes_def)
  from args_parse_custom 1 2 3 4 5 v one show ?thesis by simp
qed

subsection \<open>Defined behaviour\<close>

text \<open>
  \<open>main\<close> has a result for every argument record but a \<open>CMD_CUSTOM\<close> one whose first
  \<open>num_rest\<close> slots of \<open>rest\<close> are not all stored or number more than eight.
\<close>

lemma main_switch_returns:
  "c \<noteq> CMD_HELP \<Longrightarrow>
   c = CMD_CUSTOM \<longrightarrow>
     (\<exists>n ts. num_rest args = int n \<and> n \<le> 8 \<and> take n (rest args) = map Some ts \<and> length ts = n) \<Longrightarrow>
   \<exists>r. main_switch dev args c tr = Some r"
  by (cases c) (auto simp add: main_custom_loop_words)

lemma main_returns:
  assumes wf: "cmd args = CMD_CUSTOM \<longrightarrow>
     (\<exists>n ts. num_rest args = int n \<and> n \<le> 8 \<and> take n (rest args) = map Some ts \<and> length ts = n)"
  shows "\<exists>r. main os args tr = Some r"
proof (cases "cmd args = CMD_HELP \<or> euid os \<noteq> 0")
  case True
  then show ?thesis by (auto simp add: main_def)
next
  case pre: False
  obtain ret hpm where op: "HPMClientOpen os \<lparr>plugin = None, interface = None\<rparr> (rid args) = (ret, hpm)"
    by (cases "HPMClientOpen os \<lparr>plugin = None, interface = None\<rparr> (rid args)")
  show ?thesis
  proof (cases "ret = kIOReturnSuccess")
    case False
    with pre op show ?thesis by (simp add: main_def)
  next
    case ok: True
    from HPMClientOpen_success op ok obtain p i where pi: "plugin hpm = Some p" "interface hpm = Some i"
      by blast
    define dev where "dev = interface_impl os i"
    obtain ct tr1 where conn: "HPMGetConnectionType dev tr = (ct, tr1)"
      by (cases "HPMGetConnectionType dev tr")
    obtain r2 tr2 where en: "cli_enter_dbma_mode dev (platform_name os) tr1 = (r2, tr2)"
      by (cases "cli_enter_dbma_mode dev (platform_name os) tr1")
    from main_switch_returns [of "cmd args" args dev tr2] pre wf
    obtain rs tr3 where sw: "main_switch dev args (cmd args) tr2 = Some (rs, tr3)"
      by auto
    obtain r4 tr4 where ex: "cli_exit_dbma_mode dev tr3 = (r4, tr4)"
      by (cases "cli_exit_dbma_mode dev tr3")
    show ?thesis
      using pre
      by (simp add: main_def op ok pi dev_def [symmetric] conn en sw ex Let_def case_prod_beta
          split: sum.splits)
  qed
qed

end
